theory Spec2Isabelle
  imports Complex_Main "HOL-Library.Word" "HOL-Library.Sublist"
begin

section \<open>The MNIST scripts of djtu-wiki\<close>

text \<open>
  The repository holds three straight-line Python scripts:
  \<^item> \<^verbatim>\<open>docs/jobs/ai/mnist.py\<close> trains a dense classifier and saves it as
    \<^verbatim>\<open>mnist_model/model.h5\<close>;
  \<^item> \<^verbatim>\<open>docs/jobs/ai/convert_model.py\<close> loads that checkpoint and converts it into
    \<^verbatim>\<open>public/model\<close>;
  \<^item> \<^verbatim>\<open>scripts/train_mnist_model.py\<close> trains a convolutional classifier and
    converts it into \<^verbatim>\<open>public/model\<close> directly.

  Each script is embedded as a state-passing function over a world (the files below
  the working directory, the statements executed so far, the lines printed). An
  exception is a value: a statement returns \<open>Inl e\<close> and the rest of the script is
  skipped. What the libraries decide on their own (the dataset fetched, the random
  initial weights, the weights the training loop returns) is read from a record of
  the outside, so that every theorem holds for every such outcome.
\<close>

subsection \<open>Exceptions\<close>

text \<open>
  \<open>OSError\<close> is the bare exception of that name; the other file errors are the
  subclasses the operating system calls raise.
\<close>

datatype error =
    OSError
  | FileNotFoundError
  | FileExistsError
  | NotADirectoryError
  | IsADirectoryError
  | ValueError
  | LibraryError string

subsection \<open>Layers and models\<close>

datatype activation = Linear | Relu | Softmax

datatype padding = Valid | Same

text \<open>The layer constructors the scripts call, with the arguments they pass.\<close>

datatype layer =
    Input "nat list"
  | Reshape "nat list"
  | Conv2D nat "nat \<times> nat" activation padding
  | MaxPooling2D "nat \<times> nat"
  | Flatten "nat list option"
  | Dense nat activation
  | Dropout real

text \<open>
  The parameters of layer number \<open>k\<close>: a kernel indexed by a list of positions and a
  bias indexed by the output unit. Layers without parameters ignore theirs.
\<close>

type_synonym params = "(nat list \<Rightarrow> real) \<times> (nat \<Rightarrow> real)"

type_synonym weights = "nat \<Rightarrow> params"

record compile_args =
  optimizer :: string
  loss :: string
  metrics :: "string list"

record keras_model =
  layers :: "layer list"
  weights :: weights
  compiled :: "compile_args option"

subsection \<open>The dataset\<close>

text \<open>
  \<^verbatim>\<open>mnist.load_data()\<close> returns \<^verbatim>\<open>uint8\<close> arrays: images as rows of pixels, labels as
  class numbers.
\<close>

type_synonym pixel = "8 word"

type_synonym label = "8 word"

type_synonym 'a images = "'a list list list"

record dataset =
  x_train :: "pixel images"
  y_train :: "label list"
  x_test :: "pixel images"
  y_test :: "label list"

subsection \<open>Files below the working directory\<close>

type_synonym path = "string list"

datatype content =
    H5 keras_model
  | ModelJson "layer list" "string list"
  | WeightsBin weights
  | Other string

datatype node = Dir | File content

type_synonym fs = "path \<Rightarrow> node option"

text \<open>
  A path of the scripts is a string with \<^verbatim>\<open>/\<close> between its components; the file
  system is keyed by the list of components, relative to the working directory
  (the empty list), which is a directory.
\<close>

fun splitc :: "string \<Rightarrow> string \<Rightarrow> string list" where
  "splitc acc [] = (if acc = [] then [] else [acc])"
| "splitc acc (c # cs) =
     (if c = CHR ''/''
      then (if acc = [] then splitc [] cs else acc # splitc [] cs)
      else splitc (acc @ [c]) cs)"

definition components :: "string \<Rightarrow> path" where
  "components s = splitc [] s"

definition path_exists :: "fs \<Rightarrow> path \<Rightarrow> bool" where
  "path_exists f p = (p = [] \<or> f p \<noteq> None)"

definition isdir :: "fs \<Rightarrow> path \<Rightarrow> bool" where
  "isdir f p = (p = [] \<or> f p = Some Dir)"

definition isfile :: "fs \<Rightarrow> path \<Rightarrow> bool" where
  "isfile f p = (case f p of Some (File c) \<Rightarrow> p \<noteq> [] | _ \<Rightarrow> False)"

text \<open>\<^verbatim>\<open>os.mkdir(name)\<close>: the parent must be a directory and the name must be free.\<close>

definition mkdir :: "fs \<Rightarrow> path \<Rightarrow> error + fs" where
  "mkdir f name =
     (if path_exists f name then Inl FileExistsError
      else if isdir f (butlast name) then Inr (f(name \<mapsto> Dir))
      else if path_exists f (butlast name) then Inl NotADirectoryError
      else Inl FileNotFoundError)"

text \<open>
  \<^verbatim>\<open>os.makedirs(name, exist_ok)\<close> of the Python standard library; it returns the
  files as it leaves them, also when it raises:
  \<^verbatim>\<open>
    head, tail = path.split(name)
    if head and tail and not path.exists(head):
        try:
            makedirs(head, exist_ok=exist_ok)
        except FileExistsError:
            pass
    try:
        mkdir(name, mode)
    except OSError:
        if not exist_ok or not path.isdir(name):
            raise
  \<close>
\<close>

function makedirs :: "fs \<Rightarrow> path \<Rightarrow> bool \<Rightarrow> (error + unit) \<times> fs" where
  "makedirs f name exist_ok =
     (case (if butlast name \<noteq> [] \<and> \<not> path_exists f (butlast name)
            then (case makedirs f (butlast name) exist_ok of
                    (Inl e, f') \<Rightarrow>
                      (if e = FileExistsError then (Inr (), f') else (Inl e, f'))
                  | (Inr u, f') \<Rightarrow> (Inr (), f'))
            else (Inr (), f)) of
        (Inl e, f1) \<Rightarrow> (Inl e, f1)
      | (Inr u, f1) \<Rightarrow>
          (case mkdir f1 name of
             Inr f2 \<Rightarrow> (Inr (), f2)
           | Inl e \<Rightarrow>
               (if \<not> exist_ok \<or> \<not> isdir f1 name then (Inl e, f1) else (Inr (), f1))))"
  by pat_completeness auto
termination
proof (relation "measure (\<lambda>(f, name, exist_ok). length name)")
  show "wf (measure (\<lambda>(f :: fs, name :: path, exist_ok :: bool). length name))"
    by simp
next
  fix f :: fs and name :: path and exist_ok :: bool
  assume "butlast name \<noteq> [] \<and> \<not> path_exists f (butlast name)"
  then have "name \<noteq> []"
    by auto
  then show "((f, butlast name, exist_ok), (f, name, exist_ok))
               \<in> measure (\<lambda>(f, name, exist_ok). length name)"
    by simp
qed

declare makedirs.simps [simp del]

text \<open>
  Opening a file for writing and writing it whole (\<^verbatim>\<open>open(name, 'w')\<close>): the parent
  must be a directory and the name must not be one; a file already there is replaced.
\<close>

definition write_file :: "fs \<Rightarrow> path \<Rightarrow> content \<Rightarrow> error + fs" where
  "write_file f name c =
     (if isdir f name then Inl IsADirectoryError
      else if isdir f (butlast name) then Inr (f(name \<mapsto> File c))
      else if path_exists f (butlast name) then Inl NotADirectoryError
      else Inl FileNotFoundError)"

subsection \<open>The world and the outside\<close>

text \<open>
  Every executed statement is logged with its line in the script and what it does
  (an import, a binding of a library object to a name, a call with the arguments as
  passed).
\<close>

record fit_args =
  fit_model :: keras_model
  fit_x :: "real images"
  fit_y :: "label list"
  fit_epochs :: nat
  fit_batch_size :: "nat option"
  fit_validation_data :: "real images \<times> label list"

datatype call =
    Import string
  | Print "string list"
  | Alias string
  | LoadData
  | Rescale "pixel images"
  | Sequential "layer list"
  | Compile compile_args
  | Fit fit_args
  | Makedirs string bool
  | Save string
  | LoadModel string
  | SaveKerasModel string

type_synonym event = "nat \<times> call"

text \<open>
  Besides the files below the working directory, one thing outlives a run: the copy
  of the dataset that the loader keeps in its cache directory
  (\<^verbatim>\<open>~/.keras/datasets/mnist.npz\<close>), taken here to lie outside the working directory.
\<close>

record world =
  files :: fs
  trace :: "event list"
  stdout :: "string list list"
  keras_cache :: "dataset option"

text \<open>
  What the scripts do not decide: the versions the libraries report, whether the
  dataset can be fetched and what it holds (\<open>load_data\<close>, asked only when the cache is
  empty), the weights a new model starts from, and what the training loop returns
  (weights, or an exception). The libraries are taken to be installed: an import
  does not fail.
\<close>

record outside =
  tf_version :: string
  np_version :: string
  tfjs_version :: string
  load_data :: "error + dataset"
  initial_weights :: "layer list \<Rightarrow> weights"
  fit :: "fit_args \<Rightarrow> error + weights"

type_synonym 'a action = "world \<Rightarrow> (error + 'a) \<times> world"

definition bind :: "'a action \<Rightarrow> ('a \<Rightarrow> 'b action) \<Rightarrow> 'b action" where
  "bind m k w = (case m w of (Inl e, w') \<Rightarrow> (Inl e, w') | (Inr a, w') \<Rightarrow> k a w')"

definition stmt :: "nat \<Rightarrow> call \<Rightarrow> 'a action \<Rightarrow> 'a action" where
  "stmt line c m w = m (w\<lparr>trace := trace w @ [(line, c)]\<rparr>)"

definition pure :: "'a \<Rightarrow> 'a action" where
  "pure a w = (Inr a, w)"

definition lift :: "error + 'a \<Rightarrow> 'a action" where
  "lift r w = (r, w)"

definition on_files :: "(fs \<Rightarrow> (error + unit) \<times> fs) \<Rightarrow> unit action" where
  "on_files g w = (case g (files w) of (r, f') \<Rightarrow> (r, w\<lparr>files := f'\<rparr>))"

definition reads :: "(fs \<Rightarrow> error + 'a) \<Rightarrow> 'a action" where
  "reads g w = (g (files w), w)"

definition print :: "string list \<Rightarrow> unit action" where
  "print args w = (Inr (), w\<lparr>stdout := stdout w @ [args]\<rparr>)"

subsection \<open>The library calls\<close>

text \<open>
  \<^verbatim>\<open>mnist.load_data()\<close> returns the cached copy of the dataset when there is one and
  fetches the dataset otherwise; when it returns, the cache holds the dataset.
\<close>

definition fetched :: "outside \<Rightarrow> world \<Rightarrow> error + dataset" where
  "fetched out w = (case keras_cache w of Some d \<Rightarrow> Inr d | None \<Rightarrow> load_data out)"

definition mnist_load_data :: "outside \<Rightarrow> dataset action" where
  "mnist_load_data out w =
     (case fetched out w of
        Inl e \<Rightarrow> (Inl e, w)
      | Inr d \<Rightarrow> (Inr d, w\<lparr>keras_cache := Some d\<rparr>))"

text \<open>\<^verbatim>\<open>x.astype('float32') / 255.0\<close>, elementwise on the array.\<close>

definition rescale_pixel :: "pixel \<Rightarrow> real" where
  "rescale_pixel p = real (unat p) / 255"

definition rescale :: "pixel images \<Rightarrow> real images" where
  "rescale x = map (map (map rescale_pixel)) x"

text \<open>
  \<^verbatim>\<open>model.save(path)\<close> with a path ending in \<^verbatim>\<open>.h5\<close> writes the model (layers,
  weights, compile arguments) as one HDF5 file, replacing a file already there.
\<close>

definition model_save :: "keras_model \<Rightarrow> string \<Rightarrow> fs \<Rightarrow> (error + unit) \<times> fs" where
  "model_save m p f =
     (case write_file f (components p) (H5 m) of
        Inl e \<Rightarrow> (Inl e, f)
      | Inr f' \<Rightarrow> (Inr (), f'))"

text \<open>
  \<^verbatim>\<open>tf.keras.models.load_model(path)\<close> reads such a file back; on a missing path, a
  directory or a file that is no checkpoint it raises \<^verbatim>\<open>OSError\<close>.
\<close>

definition load_model :: "string \<Rightarrow> fs \<Rightarrow> error + keras_model" where
  "load_model p f =
     (case f (components p) of
        None \<Rightarrow> Inl OSError
      | Some Dir \<Rightarrow> Inl OSError
      | Some (File (H5 m)) \<Rightarrow> Inr m
      | Some (File _) \<Rightarrow> Inl OSError)"

text \<open>
  Modelled from the spec: the external converter \<^verbatim>\<open>tfjs.converters.save_keras_model\<close>,
  which is not part of the repository. The spec describes its output as a directory
  of converted model artifacts, weights and topology metadata. The converter refuses
  a target that is a file, creates the target directory when it is missing, and
  writes the weight data \<^verbatim>\<open>group1-shard1of1.bin\<close> and the topology descriptor
  \<^verbatim>\<open>model.json\<close> (which lists the weight files) into it.
\<close>

definition weight_file :: string where
  "weight_file = ''group1-shard1of1.bin''"

definition save_keras_model ::
  "keras_model \<Rightarrow> string \<Rightarrow> fs \<Rightarrow> (error + unit) \<times> fs" where
  "save_keras_model m artifacts_dir f =
     (let d = components artifacts_dir in
      if isfile f d then (Inl ValueError, f)
      else case (if isdir f d then (Inr (), f) else makedirs f d False) of
             (Inl e, f1) \<Rightarrow> (Inl e, f1)
           | (Inr u, f1) \<Rightarrow>
               (case write_file f1 (d @ [weight_file]) (WeightsBin (weights m)) of
                  Inl e \<Rightarrow> (Inl e, f1)
                | Inr f2 \<Rightarrow>
                    (case write_file f2 (d @ [''model.json''])
                            (ModelJson (layers m) [weight_file]) of
                       Inl e \<Rightarrow> (Inl e, f2)
                     | Inr f3 \<Rightarrow> (Inr (), f3))))"

subsection \<open>docs/jobs/ai/mnist.py\<close>

definition mnist_layers :: "layer list" where
  "mnist_layers =
     [Flatten (Some [28, 28]),
      Dense 128 Relu,
      Dropout (2 / 10),
      Dense 10 Softmax]"

definition adam_sparse :: compile_args where
  "adam_sparse =
     \<lparr>optimizer = ''adam'', loss = ''sparse_categorical_crossentropy'',
      metrics = [''accuracy'']\<rparr>"

text \<open>
  The script reads neither \<^verbatim>\<open>sys.argv\<close> nor \<^verbatim>\<open>os.environ\<close>; both are arguments of
  the run all the same, since the process receives them.
\<close>

definition mnist_py ::
  "outside \<Rightarrow> string list \<Rightarrow> (string \<Rightarrow> string option) \<Rightarrow> unit action" where
  "mnist_py out argv environ =
     bind (stmt 1 (Import ''tensorflow'') (pure ())) (\<lambda>_.
     bind (stmt 2 (Import ''numpy'') (pure ())) (\<lambda>_.
     bind (stmt 3 (Import ''os'') (pure ())) (\<lambda>_.
     bind (stmt 5 (Print [''TensorFlow version:'', tf_version out])
             (print [''TensorFlow version:'', tf_version out])) (\<lambda>_.
     bind (stmt 6 (Print [''NumPy version:'', np_version out])
             (print [''NumPy version:'', np_version out])) (\<lambda>_.
     bind (stmt 9 (Alias ''tf.keras.datasets.mnist'') (pure ())) (\<lambda>_.
     bind (stmt 10 LoadData (mnist_load_data out)) (\<lambda>d.
     bind (stmt 13 (Rescale (x_train d)) (pure (rescale (x_train d)))) (\<lambda>xtr.
     bind (stmt 14 (Rescale (x_test d)) (pure (rescale (x_test d)))) (\<lambda>xte.
     bind (stmt 17 (Sequential mnist_layers)
             (pure \<lparr>layers = mnist_layers,
                    weights = initial_weights out mnist_layers,
                    compiled = None\<rparr>)) (\<lambda>model0.
     bind (stmt 25 (Compile adam_sparse)
             (pure (model0\<lparr>compiled := Some adam_sparse\<rparr>))) (\<lambda>model1.
     let args = \<lparr>fit_model = model1, fit_x = xtr, fit_y = y_train d,
                 fit_epochs = 3, fit_batch_size = Some 32,
                 fit_validation_data = (xte, y_test d)\<rparr> in
     bind (stmt 32 (Fit args) (lift (fit out args))) (\<lambda>ws.
     let model2 = model1\<lparr>weights := ws\<rparr> in
     bind (stmt 40 (Makedirs ''mnist_model'' True)
             (on_files (\<lambda>f. makedirs f (components ''mnist_model'') True))) (\<lambda>_.
     bind (stmt 43 (Save ''mnist_model/model.h5'')
             (on_files (model_save model2 ''mnist_model/model.h5''))) (\<lambda>_.
     stmt 44 (Print [''Model saved successfully!''])
       (print [''Model saved successfully!''])))))))))))))))"

text \<open>
  A run on a machine whose cache is empty, and the next run on what a run left
  behind.
\<close>

definition start :: "fs \<Rightarrow> world" where
  "start f = \<lparr>files = f, trace = [], stdout = [], keras_cache = None\<rparr>"

definition resume :: "world \<Rightarrow> world" where
  "resume w = w\<lparr>trace := [], stdout := []\<rparr>"

subsection \<open>docs/jobs/ai/convert_model.py\<close>

definition convert_model_py ::
  "outside \<Rightarrow> string list \<Rightarrow> (string \<Rightarrow> string option) \<Rightarrow> unit action" where
  "convert_model_py out argv environ =
     bind (stmt 1 (Import ''tensorflowjs'') (pure ())) (\<lambda>_.
     bind (stmt 2 (Import ''tensorflow'') (pure ())) (\<lambda>_.
     bind (stmt 3 (Import ''os'') (pure ())) (\<lambda>_.
     bind (stmt 5 (Print [''TensorFlow.js version:'', tfjs_version out])
             (print [''TensorFlow.js version:'', tfjs_version out])) (\<lambda>_.
     bind (stmt 8 (LoadModel ''mnist_model/model.h5'')
             (reads (load_model ''mnist_model/model.h5''))) (\<lambda>model.
     bind (stmt 11 (Makedirs ''public/model'' True)
             (on_files (\<lambda>f. makedirs f (components ''public/model'') True))) (\<lambda>_.
     bind (stmt 14 (SaveKerasModel ''public/model'')
             (on_files (save_keras_model model ''public/model''))) (\<lambda>_.
     stmt 15 (Print [''Model converted successfully!''])
       (print [''Model converted successfully!'']))))))))"

subsection \<open>scripts/train_mnist_model.py\<close>

definition cnn_layers :: "layer list" where
  "cnn_layers =
     [Input [28, 28],
      Reshape [28, 28, 1],
      Conv2D 32 (3, 3) Relu Same,
      MaxPooling2D (2, 2),
      Conv2D 64 (3, 3) Relu Same,
      MaxPooling2D (2, 2),
      Flatten None,
      Dense 128 Relu,
      Dropout (2 / 10),
      Dense 10 Softmax]"

definition train_mnist_model_py ::
  "outside \<Rightarrow> string list \<Rightarrow> (string \<Rightarrow> string option) \<Rightarrow> unit action" where
  "train_mnist_model_py out argv environ =
     bind (stmt 1 (Import ''tensorflow'') (pure ())) (\<lambda>_.
     bind (stmt 2 (Import ''tensorflowjs'') (pure ())) (\<lambda>_.
     bind (stmt 5 (Alias ''tf.keras.datasets.mnist'') (pure ())) (\<lambda>_.
     bind (stmt 6 LoadData (mnist_load_data out)) (\<lambda>d.
     bind (stmt 9 (Rescale (x_train d)) (pure (rescale (x_train d)))) (\<lambda>xtr.
     bind (stmt 10 (Rescale (x_test d)) (pure (rescale (x_test d)))) (\<lambda>xte.
     bind (stmt 13 (Sequential cnn_layers)
             (pure \<lparr>layers = cnn_layers,
                    weights = initial_weights out cnn_layers,
                    compiled = None\<rparr>)) (\<lambda>model0.
     bind (stmt 31 (Compile adam_sparse)
             (pure (model0\<lparr>compiled := Some adam_sparse\<rparr>))) (\<lambda>model1.
     let args = \<lparr>fit_model = model1, fit_x = xtr, fit_y = y_train d,
                 fit_epochs = 5, fit_batch_size = None,
                 fit_validation_data = (xte, y_test d)\<rparr> in
     bind (stmt 38 (Fit args) (lift (fit out args))) (\<lambda>ws.
     let model2 = model1\<lparr>weights := ws\<rparr> in
     stmt 45 (SaveKerasModel ''public/model'')
       (on_files (save_keras_model model2 ''public/model'')))))))))))"

subsection \<open>What a model computes\<close>

text \<open>
  Modelled from the spec: the inference of the external framework (\<^verbatim>\<open>model.predict\<close>
  of Keras and the layers it runs), which is not part of the repository; the
  scripts only name the layers. The spec says that the reloaded checkpoint accepts a
  batch of correctly-shaped normalized images and returns a probability
  distribution over 10 classes summing to 1 within floating-point tolerance. The
  definitions of this subsection give each layer the function it stands for, over
  the reals, and round the result of every layer to what the framework stores: the
  rounding \<open>rd\<close> is a parameter, and exact arithmetic is \<open>rd = (\<lambda>x. x)\<close>.

  A tensor is a shape and its elements by position; positions outside the shape are
  never read.
\<close>

record tensor =
  shape :: "nat list"
  elem :: "nat list \<Rightarrow> real"

text \<open>Modelled from the spec: row-major positions, as \<^verbatim>\<open>numpy\<close> lays an array out.\<close>

fun unravel :: "nat list \<Rightarrow> nat \<Rightarrow> nat list" where
  "unravel [] i = []"
| "unravel (d # ds) i = (i div prod_list ds) # unravel ds (i mod prod_list ds)"

text \<open>Modelled from the spec: the place of a position in row-major order.\<close>

fun ravel :: "nat list \<Rightarrow> nat list \<Rightarrow> nat" where
  "ravel (d # ds) (i # is) = i * prod_list ds + ravel ds is"
| "ravel _ _ = 0"

text \<open>Modelled from the spec: the elements of a tensor as one row, in row-major order.\<close>

definition outputs :: "tensor \<Rightarrow> real list" where
  "outputs t = map (\<lambda>i. elem t (unravel (shape t) i)) [0..<prod_list (shape t)]"

text \<open>Modelled from the spec: a reshape keeps the elements in row-major order.\<close>

definition reshape :: "nat list \<Rightarrow> tensor \<Rightarrow> error + tensor" where
  "reshape s t =
     (if prod_list s = prod_list (shape t)
      then Inr \<lparr>shape = s, elem = (\<lambda>idx. elem t (unravel (shape t) (ravel s idx)))\<rparr>
      else Inl ValueError)"

text \<open>
  Modelled from the spec: the activations, \<^verbatim>\<open>relu\<close> elementwise and \<^verbatim>\<open>softmax\<close> along
  the last axis.
\<close>

definition activate :: "activation \<Rightarrow> tensor \<Rightarrow> tensor" where
  "activate a t =
     (case a of
        Linear \<Rightarrow> t
      | Relu \<Rightarrow> t\<lparr>elem := (\<lambda>idx. max 0 (elem t idx))\<rparr>
      | Softmax \<Rightarrow>
          t\<lparr>elem := (\<lambda>idx. exp (elem t idx) /
                          (\<Sum>k<last (shape t). exp (elem t (butlast idx @ [k]))))\<rparr>)"

text \<open>
  Modelled from the spec: a read of a height-width-channel tensor that is zero
  outside it (the padding), and the convolution with stride 1.
\<close>

definition read3 :: "tensor \<Rightarrow> int \<Rightarrow> int \<Rightarrow> nat \<Rightarrow> real" where
  "read3 t i j c =
     (case shape t of
        [h, w, ch] \<Rightarrow>
          (if 0 \<le> i \<and> i < int h \<and> 0 \<le> j \<and> j < int w
           then elem t [nat i, nat j, c] else 0)
      | _ \<Rightarrow> 0)"

text \<open>
  Modelled from the spec: \<^verbatim>\<open>Conv2D\<close> before its activation, the kernel applied at every
  position plus the bias; with \<^verbatim>\<open>same\<close> padding the result keeps height and width.
\<close>

definition conv2d ::
  "nat \<Rightarrow> nat \<times> nat \<Rightarrow> padding \<Rightarrow> params \<Rightarrow> tensor \<Rightarrow> error + tensor" where
  "conv2d filters ksize pad p t =
     (case shape t of
        [h, w, c] \<Rightarrow>
          (let kh = fst ksize; kw = snd ksize;
               top = (case pad of Same \<Rightarrow> (kh - 1) div 2 | Valid \<Rightarrow> 0);
               left = (case pad of Same \<Rightarrow> (kw - 1) div 2 | Valid \<Rightarrow> 0)
           in if kh = 0 \<or> kw = 0 \<or> (pad = Valid \<and> (h < kh \<or> w < kw))
              then Inl ValueError
              else Inr
                \<lparr>shape = [case pad of Same \<Rightarrow> h | Valid \<Rightarrow> h + 1 - kh,
                           case pad of Same \<Rightarrow> w | Valid \<Rightarrow> w + 1 - kw,
                           filters],
                 elem = (\<lambda>idx. case idx of
                     [i, j, u] \<Rightarrow>
                       snd p u +
                       (\<Sum>di<kh. \<Sum>dj<kw. \<Sum>ci<c.
                          fst p [di, dj, ci, u] *
                          read3 t (int i + int di - int top)
                                  (int j + int dj - int left) ci)
                   | _ \<Rightarrow> 0)\<rparr>)
      | _ \<Rightarrow> Inl ValueError)"

text \<open>Modelled from the spec: the maximum over each window, windows side by side.\<close>

definition max_pooling2d :: "nat \<times> nat \<Rightarrow> tensor \<Rightarrow> error + tensor" where
  "max_pooling2d psize t =
     (case shape t of
        [h, w, c] \<Rightarrow>
          (let ph = fst psize; pw = snd psize
           in if ph = 0 \<or> pw = 0 \<or> h < ph \<or> w < pw then Inl ValueError
              else Inr
                \<lparr>shape = [h div ph, w div pw, c],
                 elem = (\<lambda>idx. case idx of
                     [i, j, ch] \<Rightarrow>
                       Max ((\<lambda>(di, dj). elem t [i * ph + di, j * pw + dj, ch]) `
                            ({..<ph} \<times> {..<pw}))
                   | _ \<Rightarrow> 0)\<rparr>)
      | _ \<Rightarrow> Inl ValueError)"

text \<open>
  Modelled from the spec: a dense layer, the kernel applied along the last axis
  plus the bias.
\<close>

definition dense :: "nat \<Rightarrow> params \<Rightarrow> tensor \<Rightarrow> error + tensor" where
  "dense units p t =
     (if shape t = [] then Inl ValueError
      else Inr
        \<lparr>shape = butlast (shape t) @ [units],
         elem = (\<lambda>idx. snd p (last idx) +
                   (\<Sum>i<last (shape t). elem t (butlast idx @ [i]) * fst p [i, last idx]))\<rparr>)"

text \<open>
  Modelled from the spec: one layer at inference. \<^verbatim>\<open>Dropout\<close> passes its input
  through, a layer given an input shape refuses any other.
\<close>

fun apply_layer :: "layer \<Rightarrow> params \<Rightarrow> tensor \<Rightarrow> error + tensor" where
  "apply_layer (Input s) p t = (if shape t = s then Inr t else Inl ValueError)"
| "apply_layer (Reshape s) p t = reshape s t"
| "apply_layer (Conv2D filters ksize a pad) p t =
     (case conv2d filters ksize pad p t of
        Inl e \<Rightarrow> Inl e | Inr t' \<Rightarrow> Inr (activate a t'))"
| "apply_layer (MaxPooling2D psize) p t = max_pooling2d psize t"
| "apply_layer (Flatten None) p t = reshape [prod_list (shape t)] t"
| "apply_layer (Flatten (Some s)) p t =
     (if shape t = s then reshape [prod_list (shape t)] t else Inl ValueError)"
| "apply_layer (Dense units a) p t =
     (case dense units p t of
        Inl e \<Rightarrow> Inl e | Inr t' \<Rightarrow> Inr (activate a t'))"
| "apply_layer (Dropout rate) p t = Inr t"

text \<open>
  Modelled from the spec: what the framework stores of a layer's result, every
  element rounded, and the layers of a model one after the other.
\<close>

definition rounded :: "(real \<Rightarrow> real) \<Rightarrow> tensor \<Rightarrow> tensor" where
  "rounded rd t = t\<lparr>elem := (\<lambda>idx. rd (elem t idx))\<rparr>"

text \<open>Modelled from the spec: a layer run by the framework, its result stored rounded.\<close>

definition run_layer ::
  "(real \<Rightarrow> real) \<Rightarrow> layer \<Rightarrow> params \<Rightarrow> tensor \<Rightarrow> error + tensor" where
  "run_layer rd l p t =
     (case apply_layer l p t of Inl e \<Rightarrow> Inl e | Inr t' \<Rightarrow> Inr (rounded rd t'))"

text \<open>
  Modelled from the spec: the layers of a \<^verbatim>\<open>Sequential\<close> model run one after the other,
  layer \<open>k\<close> with the weights \<open>ws k\<close>; the first layer that raises ends the pass.
\<close>

fun forward ::
  "(real \<Rightarrow> real) \<Rightarrow> layer list \<Rightarrow> weights \<Rightarrow> nat \<Rightarrow> tensor \<Rightarrow> error + tensor" where
  "forward rd [] ws k t = Inr t"
| "forward rd (l # ls) ws k t =
     (case run_layer rd l (ws k) t of
        Inl e \<Rightarrow> Inl e
      | Inr t' \<Rightarrow> forward rd ls ws (Suc k) t')"

text \<open>
  Modelled from the spec: the rows that \<^verbatim>\<open>model.predict\<close> collects, one row of outputs
  for each image, in the order of the batch.
\<close>

fun predict_rows ::
  "(real \<Rightarrow> real) \<Rightarrow> keras_model \<Rightarrow> tensor list \<Rightarrow> error + real list list" where
  "predict_rows rd m [] = Inr []"
| "predict_rows rd m (x # xs) =
     (case forward rd (layers m) (weights m) 0 x of
        Inl e \<Rightarrow> Inl e
      | Inr t \<Rightarrow>
          (case predict_rows rd m xs of
             Inl e \<Rightarrow> Inl e
           | Inr ys \<Rightarrow> Inr (outputs t # ys)))"

text \<open>
  Modelled from the spec: \<^verbatim>\<open>model.predict(batch)\<close>, which raises \<^verbatim>\<open>ValueError\<close> on a batch
  with no image and otherwise returns the rows.
\<close>

definition predict ::
  "(real \<Rightarrow> real) \<Rightarrow> keras_model \<Rightarrow> tensor list \<Rightarrow> error + real list list" where
  "predict rd m batch = (if batch = [] then Inl ValueError else predict_rows rd m batch)"

text \<open>
  A row of \<open>n\<close> numbers between 0 and 1 whose sum is within \<open>tol\<close> of 1; with
  \<open>tol = 0\<close>, a probability distribution.
\<close>

definition distribution :: "nat \<Rightarrow> real \<Rightarrow> real list \<Rightarrow> bool" where
  "distribution n tol y =
     (length y = n \<and> list_all (\<lambda>p. 0 \<le> p \<and> p \<le> 1) y \<and> \<bar>sum_list y - 1\<bar> \<le> tol)"

text \<open>
  A rounding of the numbers between 0 and 1 that stays between 0 and 1 and moves a
  number by at most \<open>eps\<close>. Rounding to the nearest 32-bit float is one, with \<open>eps\<close>
  half the distance between two floats below 1; exact arithmetic is one with
  \<open>eps = 0\<close>.
\<close>

definition rounding :: "(real \<Rightarrow> real) \<Rightarrow> real \<Rightarrow> bool" where
  "rounding rd eps =
     (\<forall>x. 0 \<le> x \<and> x \<le> 1 \<longrightarrow> 0 \<le> rd x \<and> rd x \<le> 1 \<and> \<bar>rd x - x\<bar> \<le> eps)"

text \<open>
  Rounding to the nearest multiple of 1 / 2 ^ 24, the distance between two 32-bit
  floats just below 1: it moves a number by at most 1 / 2 ^ 25.
\<close>

definition round24 :: "real \<Rightarrow> real" where
  "round24 x = real_of_int (round (x * 2 ^ 24)) / 2 ^ 24"

subsection \<open>The statements of each script\<close>

text \<open>
  The arguments of the \<^verbatim>\<open>model.fit\<close> call of \<^verbatim>\<open>mnist.py\<close> when the loader
  returned \<open>d\<close>, and the statements of a run that completes, in the order of the
  script.
\<close>

definition mnist_fit_args :: "outside \<Rightarrow> dataset \<Rightarrow> fit_args" where
  "mnist_fit_args out d =
     \<lparr>fit_model = \<lparr>layers = mnist_layers, weights = initial_weights out mnist_layers,
                    compiled = Some adam_sparse\<rparr>,
      fit_x = rescale (x_train d), fit_y = y_train d,
      fit_epochs = 3, fit_batch_size = Some 32,
      fit_validation_data = (rescale (x_test d), y_test d)\<rparr>"

definition mnist_statements :: "outside \<Rightarrow> dataset \<Rightarrow> event list" where
  "mnist_statements out d =
     [(1, Import ''tensorflow''),
      (2, Import ''numpy''),
      (3, Import ''os''),
      (5, Print [''TensorFlow version:'', tf_version out]),
      (6, Print [''NumPy version:'', np_version out]),
      (9, Alias ''tf.keras.datasets.mnist''),
      (10, LoadData),
      (13, Rescale (x_train d)),
      (14, Rescale (x_test d)),
      (17, Sequential mnist_layers),
      (25, Compile adam_sparse),
      (32, Fit (mnist_fit_args out d)),
      (40, Makedirs ''mnist_model'' True),
      (43, Save ''mnist_model/model.h5''),
      (44, Print [''Model saved successfully!''])]"

text \<open>The model after \<^verbatim>\<open>compile\<close> and \<^verbatim>\<open>fit\<close>, with the weights training returned.\<close>

definition trained :: "layer list \<Rightarrow> weights \<Rightarrow> keras_model" where
  "trained ls ws = \<lparr>layers = ls, weights = ws, compiled = Some adam_sparse\<rparr>"

definition cnn_fit_args :: "outside \<Rightarrow> dataset \<Rightarrow> fit_args" where
  "cnn_fit_args out d =
     \<lparr>fit_model = \<lparr>layers = cnn_layers, weights = initial_weights out cnn_layers,
                    compiled = Some adam_sparse\<rparr>,
      fit_x = rescale (x_train d), fit_y = y_train d,
      fit_epochs = 5, fit_batch_size = None,
      fit_validation_data = (rescale (x_test d), y_test d)\<rparr>"

definition train_statements :: "outside \<Rightarrow> dataset \<Rightarrow> event list" where
  "train_statements out d =
     [(1, Import ''tensorflow''),
      (2, Import ''tensorflowjs''),
      (5, Alias ''tf.keras.datasets.mnist''),
      (6, LoadData),
      (9, Rescale (x_train d)),
      (10, Rescale (x_test d)),
      (13, Sequential cnn_layers),
      (31, Compile adam_sparse),
      (38, Fit (cnn_fit_args out d)),
      (45, SaveKerasModel ''public/model'')]"

definition convert_statements :: "outside \<Rightarrow> event list" where
  "convert_statements out =
     [(1, Import ''tensorflowjs''),
      (2, Import ''tensorflow''),
      (3, Import ''os''),
      (5, Print [''TensorFlow.js version:'', tfjs_version out]),
      (8, LoadModel ''mnist_model/model.h5''),
      (11, Makedirs ''public/model'' True),
      (14, SaveKerasModel ''public/model''),
      (15, Print [''Model converted successfully!''])]"

subsection \<open>A concrete outside\<close>

text \<open>
  A small dataset (one training and one test image of 28 by 28 pixels) and library
  outcomes on which the scripts can be run: the loader returns, training returns
  weights that are all one.
\<close>

definition example_dataset :: dataset where
  "example_dataset =
     \<lparr>x_train = [replicate 28 (replicate 28 51)], y_train = [7],
      x_test = [replicate 28 (replicate 28 255)], y_test = [3]\<rparr>"

definition example_outside :: outside where
  "example_outside =
     \<lparr>tf_version = ''2.15.0'', np_version = ''1.26.4'', tfjs_version = ''4.17.0'',
      load_data = Inr example_dataset,
      initial_weights = (\<lambda>ls k. (\<lambda>idx. 0, \<lambda>j. 0)),
      fit = (\<lambda>a. Inr (\<lambda>k. (\<lambda>idx. 1, \<lambda>j. 0)))\<rparr>"

text \<open>
  Files on which the conversion can run (a checkpoint as \<^verbatim>\<open>mnist.py\<close> leaves it), and
  files in which the outputs of \<^verbatim>\<open>mnist.py\<close> are present and stale.
\<close>

definition example_files :: fs where
  "example_files =
     [[''mnist_model''] \<mapsto> Dir,
      [''mnist_model'', ''model.h5''] \<mapsto>
        File (H5 (trained mnist_layers (\<lambda>k. (\<lambda>idx. 1, \<lambda>j. 0))))]"

definition stale_files :: fs where
  "stale_files =
     [[''mnist_model''] \<mapsto> Dir,
      [''mnist_model'', ''model.h5''] \<mapsto> File (Other ''stale'')]"

subsection \<open>Stages of the pipeline\<close>

text \<open>
  The stage each statement of the scripts belongs to, and the stages of a run in the
  order it went through them (imports and printing are left out, repeats are
  merged).
\<close>

datatype stage =
    Setup
  | Reporting
  | DataLoading
  | Preprocessing
  | ModelBuilding
  | Training
  | CheckpointLoading
  | Export

fun stage_of :: "call \<Rightarrow> stage" where
  "stage_of (Import name) = Setup"
| "stage_of (Print args) = Reporting"
| "stage_of (Alias name) = DataLoading"
| "stage_of LoadData = DataLoading"
| "stage_of (Rescale x) = Preprocessing"
| "stage_of (Sequential ls) = ModelBuilding"
| "stage_of (Compile c) = ModelBuilding"
| "stage_of (Fit a) = Training"
| "stage_of (Makedirs p exist_ok) = Export"
| "stage_of (Save p) = Export"
| "stage_of (LoadModel p) = CheckpointLoading"
| "stage_of (SaveKerasModel p) = Export"

definition stages :: "event list \<Rightarrow> stage list" where
  "stages tr =
     remdups_adj (filter (\<lambda>s. s \<noteq> Setup \<and> s \<noteq> Reporting) (map (\<lambda>(l, c). stage_of c) tr))"


text \<open>
  An outside in which the dataset cannot be fetched, and files in which a directory
  stands where the checkpoint is to be written.
\<close>

definition offline :: outside where
  "offline = example_outside\<lparr>load_data := Inl (LibraryError ''dataset unavailable'')\<rparr>"

definition blocked_files :: fs where
  "blocked_files =
     [[''mnist_model''] \<mapsto> Dir, [''mnist_model'', ''model.h5''] \<mapsto> Dir]"

text \<open>
  An image of the right shape, every pixel at one fifth, and weights under which
  the first class gets twice the weight of each other class: the hidden units are
  all 1, and the last layer adds up \<open>ln 2\<close> for the first class and 0 for the others.
\<close>

definition grey_image :: tensor where
  "grey_image = \<lparr>shape = [28, 28], elem = (\<lambda>idx. 1 / 5)\<rparr>"

definition skewed_weights :: weights where
  "skewed_weights k =
     ((\<lambda>idx. if k = 3 \<and> last idx = 0 then ln 2 / 128 else 0),
      (\<lambda>j. if k = 1 then 1 else 0))"

section \<open>Properties of the scripts\<close>

subsection \<open>Paths and runs\<close>

lemma components_mnist_model: "components ''mnist_model'' = [''mnist_model'']"
  by (simp add: components_def)

lemma components_checkpoint:
  "components ''mnist_model/model.h5'' = [''mnist_model'', ''model.h5'']"
  by (simp add: components_def)

lemma components_public_model: "components ''public/model'' = [''public'', ''model'']"
  by (simp add: components_def)

lemma fetched_trace [simp]: "fetched out (w\<lparr>trace := t\<rparr>) = fetched out w"
  by (simp add: fetched_def)

lemma fetched_stdout [simp]: "fetched out (w\<lparr>stdout := s\<rparr>) = fetched out w"
  by (simp add: fetched_def)

lemma fetched_empty_cache: "keras_cache w = None \<Longrightarrow> fetched out w = load_data out"
  by (simp add: fetched_def)

lemma mnist_py_run_any_cache:
  "mnist_py out argv environ w =
     (let banner = [[''TensorFlow version:'', tf_version out],
                    [''NumPy version:'', np_version out]] in
      case fetched out w of
        Inl e \<Rightarrow>
          (Inl e, w\<lparr>trace := trace w @
                        [(1, Import ''tensorflow''),
                         (2, Import ''numpy''),
                         (3, Import ''os''),
                         (5, Print [''TensorFlow version:'', tf_version out]),
                         (6, Print [''NumPy version:'', np_version out]),
                         (9, Alias ''tf.keras.datasets.mnist''),
                         (10, LoadData)],
                     stdout := stdout w @ banner\<rparr>)
      | Inr d \<Rightarrow>
         (case fit out (mnist_fit_args out d) of
            Inl e \<Rightarrow> (Inl e, w\<lparr>trace := trace w @ take 12 (mnist_statements out d),
                              stdout := stdout w @ banner,
                              keras_cache := Some d\<rparr>)
          | Inr ws \<Rightarrow>
             (case makedirs (files w) (components ''mnist_model'') True of
                (Inl e, f1) \<Rightarrow>
                  (Inl e, w\<lparr>files := f1,
                             trace := trace w @ take 13 (mnist_statements out d),
                             stdout := stdout w @ banner,
                             keras_cache := Some d\<rparr>)
              | (Inr u, f1) \<Rightarrow>
                 (case model_save (trained mnist_layers ws) ''mnist_model/model.h5'' f1 of
                    (Inl e, f2) \<Rightarrow>
                      (Inl e, w\<lparr>files := f2,
                                 trace := trace w @ take 14 (mnist_statements out d),
                                 stdout := stdout w @ banner,
                                 keras_cache := Some d\<rparr>)
                  | (Inr u, f2) \<Rightarrow>
                      (Inr (), w\<lparr>files := f2,
                                 trace := trace w @ mnist_statements out d,
                                 stdout := stdout w @ banner @
                                   [[''Model saved successfully!'']],
                                 keras_cache := Some d\<rparr>)))))"
  by (simp add: mnist_py_def bind_def stmt_def print_def lift_def mnist_load_data_def pure_def
      on_files_def mnist_fit_args_def mnist_statements_def trained_def Let_def
      split: sum.splits prod.splits)

lemma mnist_py_run:
  assumes "keras_cache w = None"
  shows "mnist_py out argv environ w =
     (let banner = [[''TensorFlow version:'', tf_version out],
                    [''NumPy version:'', np_version out]] in
      case load_data out of
        Inl e \<Rightarrow>
          (Inl e, w\<lparr>trace := trace w @
                        [(1, Import ''tensorflow''),
                         (2, Import ''numpy''),
                         (3, Import ''os''),
                         (5, Print [''TensorFlow version:'', tf_version out]),
                         (6, Print [''NumPy version:'', np_version out]),
                         (9, Alias ''tf.keras.datasets.mnist''),
                         (10, LoadData)],
                     stdout := stdout w @ banner\<rparr>)
      | Inr d \<Rightarrow>
         (case fit out (mnist_fit_args out d) of
            Inl e \<Rightarrow> (Inl e, w\<lparr>trace := trace w @ take 12 (mnist_statements out d),
                              stdout := stdout w @ banner,
                              keras_cache := Some d\<rparr>)
          | Inr ws \<Rightarrow>
             (case makedirs (files w) (components ''mnist_model'') True of
                (Inl e, f1) \<Rightarrow>
                  (Inl e, w\<lparr>files := f1,
                             trace := trace w @ take 13 (mnist_statements out d),
                             stdout := stdout w @ banner,
                             keras_cache := Some d\<rparr>)
              | (Inr u, f1) \<Rightarrow>
                 (case model_save (trained mnist_layers ws) ''mnist_model/model.h5'' f1 of
                    (Inl e, f2) \<Rightarrow>
                      (Inl e, w\<lparr>files := f2,
                                 trace := trace w @ take 14 (mnist_statements out d),
                                 stdout := stdout w @ banner,
                                 keras_cache := Some d\<rparr>)
                  | (Inr u, f2) \<Rightarrow>
                      (Inr (), w\<lparr>files := f2,
                                 trace := trace w @ mnist_statements out d,
                                 stdout := stdout w @ banner @
                                   [[''Model saved successfully!'']],
                                 keras_cache := Some d\<rparr>)))))"
  by (simp only: mnist_py_run_any_cache fetched_empty_cache [OF assms])

lemma train_mnist_model_py_run_any_cache:
  "train_mnist_model_py out argv environ w =
     (case fetched out w of
        Inl e \<Rightarrow>
          (Inl e, w\<lparr>trace := trace w @
                        [(1, Import ''tensorflow''),
                         (2, Import ''tensorflowjs''),
                         (5, Alias ''tf.keras.datasets.mnist''),
                         (6, LoadData)]\<rparr>)
      | Inr d \<Rightarrow>
         (case fit out (cnn_fit_args out d) of
            Inl e \<Rightarrow> (Inl e, w\<lparr>trace := trace w @ take 9 (train_statements out d),
                              keras_cache := Some d\<rparr>)
          | Inr ws \<Rightarrow>
             (case save_keras_model (trained cnn_layers ws) ''public/model'' (files w) of
                (r, f1) \<Rightarrow>
                  (r, w\<lparr>files := f1, trace := trace w @ train_statements out d,
                         keras_cache := Some d\<rparr>))))"
  by (simp add: train_mnist_model_py_def bind_def stmt_def lift_def mnist_load_data_def pure_def
      on_files_def cnn_fit_args_def train_statements_def trained_def Let_def
      split: sum.splits prod.splits)

lemma train_mnist_model_py_run:
  assumes "keras_cache w = None"
  shows "train_mnist_model_py out argv environ w =
     (case load_data out of
        Inl e \<Rightarrow>
          (Inl e, w\<lparr>trace := trace w @
                        [(1, Import ''tensorflow''),
                         (2, Import ''tensorflowjs''),
                         (5, Alias ''tf.keras.datasets.mnist''),
                         (6, LoadData)]\<rparr>)
      | Inr d \<Rightarrow>
         (case fit out (cnn_fit_args out d) of
            Inl e \<Rightarrow> (Inl e, w\<lparr>trace := trace w @ take 9 (train_statements out d),
                              keras_cache := Some d\<rparr>)
          | Inr ws \<Rightarrow>
             (case save_keras_model (trained cnn_layers ws) ''public/model'' (files w) of
                (r, f1) \<Rightarrow>
                  (r, w\<lparr>files := f1, trace := trace w @ train_statements out d,
                         keras_cache := Some d\<rparr>))))"
  by (simp only: train_mnist_model_py_run_any_cache fetched_empty_cache [OF assms])

lemma convert_model_py_run:
  "convert_model_py out argv environ w =
     (let banner = [[''TensorFlow.js version:'', tfjs_version out]] in
      case load_model ''mnist_model/model.h5'' (files w) of
        Inl e \<Rightarrow>
          (Inl e, w\<lparr>trace := trace w @ take 5 (convert_statements out),
                     stdout := stdout w @ banner\<rparr>)
      | Inr m \<Rightarrow>
         (case makedirs (files w) (components ''public/model'') True of
            (Inl e, f1) \<Rightarrow>
              (Inl e, w\<lparr>files := f1,
                         trace := trace w @ take 6 (convert_statements out),
                         stdout := stdout w @ banner\<rparr>)
          | (Inr u, f1) \<Rightarrow>
             (case save_keras_model m ''public/model'' f1 of
                (Inl e, f2) \<Rightarrow>
                  (Inl e, w\<lparr>files := f2,
                             trace := trace w @ take 7 (convert_statements out),
                             stdout := stdout w @ banner\<rparr>)
              | (Inr u, f2) \<Rightarrow>
                  (Inr (), w\<lparr>files := f2,
                             trace := trace w @ convert_statements out,
                             stdout := stdout w @ banner @
                               [[''Model converted successfully!'']]\<rparr>))))"
  by (simp add: convert_model_py_def bind_def stmt_def print_def pure_def on_files_def
      reads_def convert_statements_def Let_def
      split: sum.splits prod.splits)

subsection \<open>Files\<close>

lemma makedirs_single:
  "makedirs f [d] exist_ok =
     (case f [d] of
        None \<Rightarrow> (Inr (), f([d] \<mapsto> Dir))
      | Some n \<Rightarrow> (if exist_ok \<and> n = Dir then (Inr (), f) else (Inl FileExistsError, f)))"
  by (simp add: makedirs.simps [of f "[d]"] mkdir_def path_exists_def isdir_def
      split: option.splits)

lemma write_file_Inr:
  "write_file f name c = Inr f' \<longleftrightarrow>
     \<not> isdir f name \<and> isdir f (butlast name) \<and> f' = f(name \<mapsto> File c)"
  by (auto simp: write_file_def)

lemma model_save_Inr:
  "model_save m p f = (Inr u, f') \<longleftrightarrow>
     \<not> isdir f (components p) \<and> isdir f (butlast (components p)) \<and>
     f' = f(components p \<mapsto> File (H5 m))"
  by (auto simp: model_save_def write_file_def split: sum.splits if_splits)

subsection \<open>The checkpoint of mnist.py\<close>

text \<open>
  C1. A run of \<^verbatim>\<open>mnist.py\<close> that completes leaves the directory \<^verbatim>\<open>mnist_model\<close> and,
  at \<^verbatim>\<open>mnist_model/model.h5\<close>, one file holding the trained model (the layers of the
  script with the weights training returned). When the dataset loads, training
  returns and nothing is at either path, the run completes and creates both.
\<close>

theorem mnist_py_writes_checkpoint:
  "(mnist_py out argv environ (start f) = (Inr (), w') \<longrightarrow>
      files w' (components ''mnist_model'') = Some Dir \<and>
      (\<exists>d ws. load_data out = Inr d \<and> fit out (mnist_fit_args out d) = Inr ws \<and>
         files w' (components ''mnist_model/model.h5'') =
           Some (File (H5 \<lparr>layers = mnist_layers, weights = ws,
                            compiled = Some adam_sparse\<rparr>)))) \<and>
   (load_data out = Inr d \<and> fit out (mnist_fit_args out d) = Inr ws \<and>
    f (components ''mnist_model'') = None \<and>
    f (components ''mnist_model/model.h5'') = None \<longrightarrow>
      fst (mnist_py out argv environ (start f)) = Inr () \<and>
      files (snd (mnist_py out argv environ (start f))) =
        f(components ''mnist_model'' \<mapsto> Dir,
          components ''mnist_model/model.h5'' \<mapsto>
            File (H5 \<lparr>layers = mnist_layers, weights = ws,
                       compiled = Some adam_sparse\<rparr>)))"
proof (intro conjI impI)
  assume run: "mnist_py out argv environ (start f) = (Inr (), w')"
  then obtain d ws f1 where d: "load_data out = Inr d"
    and ws: "fit out (mnist_fit_args out d) = Inr ws"
    and mk: "makedirs f (components ''mnist_model'') True = (Inr (), f1)"
    and sv: "model_save (trained mnist_layers ws) ''mnist_model/model.h5'' f1
               = (Inr (), files w')"
    by (auto simp: mnist_py_run start_def Let_def split: sum.splits prod.splits)
  from sv have dir: "isdir f1 [''mnist_model'']"
    and w': "files w' = f1([''mnist_model'', ''model.h5''] \<mapsto>
               File (H5 (trained mnist_layers ws)))"
    by (simp_all add: model_save_Inr components_checkpoint)
  from dir w' show "files w' (components ''mnist_model'') = Some Dir"
    by (simp add: isdir_def components_mnist_model)
  from d ws w' show "\<exists>d ws. load_data out = Inr d \<and>
      fit out (mnist_fit_args out d) = Inr ws \<and>
      files w' (components ''mnist_model/model.h5'') =
        Some (File (H5 \<lparr>layers = mnist_layers, weights = ws,
                         compiled = Some adam_sparse\<rparr>))"
    by (simp add: components_checkpoint trained_def)
next
  assume a: "load_data out = Inr d \<and> fit out (mnist_fit_args out d) = Inr ws \<and>
    f (components ''mnist_model'') = None \<and>
    f (components ''mnist_model/model.h5'') = None"
  then have run: "mnist_py out argv environ (start f) =
      (Inr (), \<lparr>files = f([''mnist_model''] \<mapsto> Dir,
                  [''mnist_model'', ''model.h5''] \<mapsto> File (H5 (trained mnist_layers ws))),
                trace = mnist_statements out d,
                stdout = [[''TensorFlow version:'', tf_version out],
                          [''NumPy version:'', np_version out],
                          [''Model saved successfully!'']],
                keras_cache = Some d\<rparr>)"
    by (simp add: mnist_py_run start_def components_mnist_model components_checkpoint
        makedirs_single model_save_def write_file_def isdir_def)
  show "fst (mnist_py out argv environ (start f)) = Inr ()"
    by (simp add: run)
  show "files (snd (mnist_py out argv environ (start f))) =
        f(components ''mnist_model'' \<mapsto> Dir,
          components ''mnist_model/model.h5'' \<mapsto>
            File (H5 \<lparr>layers = mnist_layers, weights = ws,
                       compiled = Some adam_sparse\<rparr>))"
    by (simp add: run components_mnist_model components_checkpoint trained_def)
qed

theorem mnist_py_writes_checkpoint_witness:
  "fst (mnist_py example_outside [] Map.empty (start Map.empty)) = Inr () \<and>
   files (snd (mnist_py example_outside [] Map.empty (start Map.empty)))
     [''mnist_model''] = Some Dir \<and>
   files (snd (mnist_py example_outside [] Map.empty (start Map.empty)))
     [''mnist_model'', ''model.h5''] =
       Some (File (H5 \<lparr>layers = mnist_layers, weights = (\<lambda>k. (\<lambda>idx. 1, \<lambda>j. 0)),
                        compiled = Some adam_sparse\<rparr>))"
  using mnist_py_writes_checkpoint
    [of example_outside "[]" Map.empty Map.empty
        "snd (mnist_py example_outside [] Map.empty (start Map.empty))"
        example_dataset "\<lambda>k. (\<lambda>idx. 1, \<lambda>j. 0)"]
  by (simp add: example_outside_def components_mnist_model components_checkpoint)

subsection \<open>The statements a run executes\<close>

lemma mnist_py_trace_failed_load:
  "load_data out = Inl e \<Longrightarrow>
     trace (snd (mnist_py out argv environ (start f))) =
       [(1, Import ''tensorflow''), (2, Import ''numpy''), (3, Import ''os''),
        (5, Print [''TensorFlow version:'', tf_version out]),
        (6, Print [''NumPy version:'', np_version out]),
        (9, Alias ''tf.keras.datasets.mnist''),
        (10, LoadData)]"
  by (simp add: mnist_py_run start_def Let_def)

lemma mnist_py_trace:
  "load_data out = Inr d \<Longrightarrow>
     trace (snd (mnist_py out argv environ (start f))) \<in>
       {take 12 (mnist_statements out d), take 13 (mnist_statements out d),
        take 14 (mnist_statements out d), mnist_statements out d}"
  by (simp add: mnist_py_run start_def Let_def mnist_statements_def
      split: sum.splits prod.splits)

lemma mnist_py_fit_event:
  assumes "(l, Fit a) \<in> set (trace (snd (mnist_py out argv environ (start f))))"
  shows "l = 32 \<and> (\<exists>d. load_data out = Inr d \<and> a = mnist_fit_args out d)"
proof (cases "load_data out")
  case (Inl e)
  with assms show ?thesis
    by (simp add: mnist_py_trace_failed_load)
next
  case (Inr d)
  have "set (trace (snd (mnist_py out argv environ (start f))))
          \<subseteq> set (mnist_statements out d)"
    using mnist_py_trace [OF Inr, of argv environ f] by (auto dest: in_set_takeD)
  with assms have "(l, Fit a) \<in> set (mnist_statements out d)"
    by blast
  with Inr show ?thesis
    by (simp add: mnist_statements_def)
qed

lemma mnist_py_reaches_fit:
  "load_data out = Inr d \<Longrightarrow>
     (32, Fit (mnist_fit_args out d))
       \<in> set (trace (snd (mnist_py out argv environ (start f))))"
  using mnist_py_trace [of out d argv environ f]
  by (auto simp: mnist_statements_def)

lemma train_py_trace_failed_load:
  "load_data out = Inl e \<Longrightarrow>
     trace (snd (train_mnist_model_py out argv environ (start f))) =
       [(1, Import ''tensorflow''), (2, Import ''tensorflowjs''),
        (5, Alias ''tf.keras.datasets.mnist''), (6, LoadData)]"
  by (simp add: train_mnist_model_py_run start_def)

lemma train_py_trace:
  "load_data out = Inr d \<Longrightarrow>
     trace (snd (train_mnist_model_py out argv environ (start f))) \<in>
       {take 9 (train_statements out d), train_statements out d}"
  by (simp add: train_mnist_model_py_run start_def train_statements_def
      split: sum.splits prod.splits)

lemma train_py_fit_event:
  assumes "(l, Fit a) \<in> set (trace (snd (train_mnist_model_py out argv environ (start f))))"
  shows "l = 38 \<and> (\<exists>d. load_data out = Inr d \<and> a = cnn_fit_args out d)"
proof (cases "load_data out")
  case (Inl e)
  with assms show ?thesis
    by (simp add: train_py_trace_failed_load)
next
  case (Inr d)
  have "set (trace (snd (train_mnist_model_py out argv environ (start f))))
          \<subseteq> set (train_statements out d)"
    using train_py_trace [OF Inr, of argv environ f] by (auto dest: in_set_takeD)
  with assms have "(l, Fit a) \<in> set (train_statements out d)"
    by blast
  with Inr show ?thesis
    by (simp add: train_statements_def)
qed

lemma train_py_reaches_fit:
  "load_data out = Inr d \<Longrightarrow>
     (38, Fit (cnn_fit_args out d))
       \<in> set (trace (snd (train_mnist_model_py out argv environ (start f))))"
  using train_py_trace [of out d argv environ f]
  by (auto simp: train_statements_def)

subsection \<open>Preprocessing\<close>

lemma rescale_pixel_bounds: "0 \<le> rescale_pixel p \<and> rescale_pixel p \<le> 1"
proof -
  have "unat p < 2 ^ 8"
    using unsigned_less [of p, where ?'a = nat] by simp
  then have "unat p \<le> 255"
    by simp
  then have "real (unat p) \<le> real 255"
    by (rule of_nat_mono)
  moreover have "0 \<le> real (unat p)"
    by (rule of_nat_0_le_iff)
  ultimately show ?thesis
    by (simp add: rescale_pixel_def)
qed

text \<open>
  C6. Rescaling maps every pixel value (a \<^verbatim>\<open>uint8\<close>, so between 0 and 255) into the
  interval from 0 to 1. It is applied elementwise: the rescaled array has the shape
  of the input and holds, at every position, the pixel divided by 255. In both
  training scripts the arrays passed to \<^verbatim>\<open>fit\<close> are the rescaled training images and,
  as validation data, the rescaled test images.
\<close>

theorem rescale_normalizes:
  "0 \<le> rescale_pixel p \<and> rescale_pixel p \<le> 1 \<and>
   length (rescale x) = length x \<and>
   (\<forall>i<length x. length (rescale x ! i) = length (x ! i) \<and>
      (\<forall>j<length (x ! i). length (rescale x ! i ! j) = length (x ! i ! j) \<and>
         (\<forall>k<length (x ! i ! j).
            rescale x ! i ! j ! k = real (unat (x ! i ! j ! k)) / 255 \<and>
            0 \<le> rescale x ! i ! j ! k \<and> rescale x ! i ! j ! k \<le> 1))) \<and>
   (\<forall>l a. (l, Fit a) \<in> set (trace (snd (mnist_py out argv environ (start f)))) \<or>
           (l, Fit a) \<in> set (trace (snd (train_mnist_model_py out argv environ (start f))))
      \<longrightarrow> (\<exists>d. load_data out = Inr d \<and> fit_x a = rescale (x_train d) \<and>
                fst (fit_validation_data a) = rescale (x_test d)))"
proof (intro conjI allI impI)
  show "0 \<le> rescale_pixel p" "rescale_pixel p \<le> 1"
    using rescale_pixel_bounds by simp_all
  show "length (rescale x) = length x"
    by (simp add: rescale_def)
next
  fix i assume "i < length x"
  then show "length (rescale x ! i) = length (x ! i)"
    by (simp add: rescale_def)
next
  fix i j assume "i < length x" "j < length (x ! i)"
  then show "length (rescale x ! i ! j) = length (x ! i ! j)"
    by (simp add: rescale_def)
next
  fix i j k assume ijk: "i < length x" "j < length (x ! i)" "k < length (x ! i ! j)"
  then show eq: "rescale x ! i ! j ! k = real (unat (x ! i ! j ! k)) / 255"
    by (simp add: rescale_def rescale_pixel_def)
  from ijk have "rescale x ! i ! j ! k = rescale_pixel (x ! i ! j ! k)"
    by (simp add: rescale_def)
  then show "0 \<le> rescale x ! i ! j ! k" "rescale x ! i ! j ! k \<le> 1"
    using rescale_pixel_bounds by simp_all
next
  fix l a
  assume "(l, Fit a) \<in> set (trace (snd (mnist_py out argv environ (start f)))) \<or>
          (l, Fit a) \<in> set (trace (snd (train_mnist_model_py out argv environ (start f))))"
  then show "\<exists>d. load_data out = Inr d \<and> fit_x a = rescale (x_train d) \<and>
                fst (fit_validation_data a) = rescale (x_test d)"
    by (auto dest!: mnist_py_fit_event train_py_fit_event
        simp: mnist_fit_args_def cnn_fit_args_def)
qed

theorem rescale_normalizes_witness:
  "(0 :: nat) < length (x_train example_dataset) \<and>
   (1 :: nat) < length (x_train example_dataset ! 0) \<and>
   (0 :: nat) < length (x_train example_dataset ! 0 ! 1) \<and>
   rescale (x_train example_dataset) ! 0 ! 1 ! 0 = 1 / 5 \<and>
   rescale (x_train example_dataset) ! 0 ! 1 ! 0 \<le> 1 \<and>
   rescale_pixel 255 = 1 \<and>
   (32, Fit (mnist_fit_args example_outside example_dataset))
     \<in> set (trace (snd (mnist_py example_outside [] Map.empty (start Map.empty)))) \<and>
   fit_x (mnist_fit_args example_outside example_dataset)
     = [replicate 28 (replicate 28 (1 / 5))] \<and>
   fst (fit_validation_data (mnist_fit_args example_outside example_dataset))
     = rescale (x_test example_dataset)"
proof -
  have reached: "(32, Fit (mnist_fit_args example_outside example_dataset))
     \<in> set (trace (snd (mnist_py example_outside [] Map.empty (start Map.empty))))"
    by (rule mnist_py_reaches_fit) (simp add: example_outside_def)
  have "load_data example_outside = Inr example_dataset"
    by (simp add: example_outside_def)
  with reached show ?thesis
    using rescale_normalizes [of 255 "x_train example_dataset" example_outside "[]"
        Map.empty Map.empty]
    by (simp add: example_dataset_def rescale_def rescale_pixel_def)
qed

subsection \<open>Labels\<close>

text \<open>
  C9. When the loader returns, both training scripts reach \<^verbatim>\<open>fit\<close>, and every
  \<^verbatim>\<open>fit\<close> call receives the label arrays exactly as the loader returned them: the
  training labels as targets and the test labels in the validation data, for a
  model compiled with the loss \<^verbatim>\<open>sparse_categorical_crossentropy\<close>. Rescaling takes
  and returns image arrays only.
\<close>

theorem labels_reach_fit_unchanged:
  assumes "load_data out = Inr d"
  shows "(\<exists>a. (32, Fit a) \<in> set (trace (snd (mnist_py out argv environ (start f))))) \<and>
         (\<exists>a. (38, Fit a)
            \<in> set (trace (snd (train_mnist_model_py out argv environ (start f))))) \<and>
         (\<forall>l a. (l, Fit a) \<in> set (trace (snd (mnist_py out argv environ (start f)))) \<or>
                 (l, Fit a)
                   \<in> set (trace (snd (train_mnist_model_py out argv environ (start f))))
            \<longrightarrow> fit_y a = y_train d \<and> snd (fit_validation_data a) = y_test d \<and>
                map_option loss (compiled (fit_model a))
                  = Some ''sparse_categorical_crossentropy'')"
proof (intro conjI allI impI)
  show "\<exists>a. (32, Fit a) \<in> set (trace (snd (mnist_py out argv environ (start f))))"
    using mnist_py_reaches_fit [OF assms] by blast
  show "\<exists>a. (38, Fit a)
          \<in> set (trace (snd (train_mnist_model_py out argv environ (start f))))"
    using train_py_reaches_fit [OF assms] by blast
next
  fix l a
  assume "(l, Fit a) \<in> set (trace (snd (mnist_py out argv environ (start f)))) \<or>
          (l, Fit a) \<in> set (trace (snd (train_mnist_model_py out argv environ (start f))))"
  then have "a = mnist_fit_args out d \<or> a = cnn_fit_args out d"
    using assms by (auto dest!: mnist_py_fit_event train_py_fit_event)
  then show "fit_y a = y_train d"
    and "snd (fit_validation_data a) = y_test d"
    and "map_option loss (compiled (fit_model a)) = Some ''sparse_categorical_crossentropy''"
    by (auto simp: mnist_fit_args_def cnn_fit_args_def adam_sparse_def)
qed

theorem labels_reach_fit_unchanged_witness:
  "load_data example_outside = Inr example_dataset \<and>
   (32, Fit (mnist_fit_args example_outside example_dataset))
     \<in> set (trace (snd (mnist_py example_outside [] Map.empty (start Map.empty)))) \<and>
   fit_y (mnist_fit_args example_outside example_dataset) = [7] \<and>
   snd (fit_validation_data (mnist_fit_args example_outside example_dataset)) = [3]"
proof -
  have loaded: "load_data example_outside = Inr example_dataset"
    by (simp add: example_outside_def)
  have reached: "(32, Fit (mnist_fit_args example_outside example_dataset))
     \<in> set (trace (snd (mnist_py example_outside [] Map.empty (start Map.empty))))"
    by (rule mnist_py_reaches_fit [OF loaded])
  from labels_reach_fit_unchanged [OF loaded, of "[]" Map.empty Map.empty] reached
  have "fit_y (mnist_fit_args example_outside example_dataset) = y_train example_dataset \<and>
        snd (fit_validation_data (mnist_fit_args example_outside example_dataset))
          = y_test example_dataset"
    by blast
  with loaded reached show ?thesis
    by (simp add: example_dataset_def)
qed

subsection \<open>No configuration surface\<close>

text \<open>
  C4. A run of any of the three scripts does not depend on the command line or on
  the environment: two runs that differ only in these are the same run. The
  parameters of every \<^verbatim>\<open>fit\<close> call are the literals of the script: 3 epochs, batch
  size 32 and the dense layers of widths 128 and 10 in \<^verbatim>\<open>mnist.py\<close>; 5 epochs, no
  batch size and the convolutional layers in \<^verbatim>\<open>train_mnist_model.py\<close>.
\<close>

theorem runs_ignore_argv_and_environ:
  "mnist_py out argv1 environ1 w = mnist_py out argv2 environ2 w \<and>
   convert_model_py out argv1 environ1 w = convert_model_py out argv2 environ2 w \<and>
   train_mnist_model_py out argv1 environ1 w = train_mnist_model_py out argv2 environ2 w \<and>
   (\<forall>l a. (l, Fit a) \<in> set (trace (snd (mnist_py out argv1 environ1 (start f)))) \<longrightarrow>
      fit_epochs a = 3 \<and> fit_batch_size a = Some 32 \<and>
      layers (fit_model a) =
        [Flatten (Some [28, 28]), Dense 128 Relu, Dropout (2 / 10), Dense 10 Softmax]) \<and>
   (\<forall>l a. (l, Fit a)
        \<in> set (trace (snd (train_mnist_model_py out argv1 environ1 (start f)))) \<longrightarrow>
      fit_epochs a = 5 \<and> fit_batch_size a = None \<and>
      layers (fit_model a) =
        [Input [28, 28], Reshape [28, 28, 1],
         Conv2D 32 (3, 3) Relu Same, MaxPooling2D (2, 2),
         Conv2D 64 (3, 3) Relu Same, MaxPooling2D (2, 2),
         Flatten None, Dense 128 Relu, Dropout (2 / 10), Dense 10 Softmax])"
proof (intro conjI allI impI)
  show "mnist_py out argv1 environ1 w = mnist_py out argv2 environ2 w"
    by (simp add: mnist_py_def)
  show "convert_model_py out argv1 environ1 w = convert_model_py out argv2 environ2 w"
    by (simp add: convert_model_py_def)
  show "train_mnist_model_py out argv1 environ1 w
          = train_mnist_model_py out argv2 environ2 w"
    by (simp add: train_mnist_model_py_def)
next
  fix l a
  assume "(l, Fit a) \<in> set (trace (snd (mnist_py out argv1 environ1 (start f))))"
  then have "\<exists>d. a = mnist_fit_args out d"
    by (auto dest!: mnist_py_fit_event)
  then show "fit_epochs a = 3" and "fit_batch_size a = Some 32"
    and "layers (fit_model a) =
        [Flatten (Some [28, 28]), Dense 128 Relu, Dropout (2 / 10), Dense 10 Softmax]"
    by (auto simp: mnist_fit_args_def mnist_layers_def)
next
  fix l a
  assume "(l, Fit a) \<in> set (trace (snd (train_mnist_model_py out argv1 environ1 (start f))))"
  then have "\<exists>d. a = cnn_fit_args out d"
    by (auto dest!: train_py_fit_event)
  then show "fit_epochs a = 5" and "fit_batch_size a = None"
    and "layers (fit_model a) =
        [Input [28, 28], Reshape [28, 28, 1],
         Conv2D 32 (3, 3) Relu Same, MaxPooling2D (2, 2),
         Conv2D 64 (3, 3) Relu Same, MaxPooling2D (2, 2),
         Flatten None, Dense 128 Relu, Dropout (2 / 10), Dense 10 Softmax]"
    by (auto simp: cnn_fit_args_def cnn_layers_def)
qed

theorem runs_ignore_argv_and_environ_witness:
  "mnist_py example_outside [''mnist.py'', ''--epochs'', ''50''] [''EPOCHS'' \<mapsto> ''50'']
     (start Map.empty)
     = mnist_py example_outside [''mnist.py''] Map.empty (start Map.empty) \<and>
   (32, Fit (mnist_fit_args example_outside example_dataset))
     \<in> set (trace (snd (mnist_py example_outside [''mnist.py'', ''--epochs'', ''50'']
                           [''EPOCHS'' \<mapsto> ''50''] (start Map.empty)))) \<and>
   fit_epochs (mnist_fit_args example_outside example_dataset) = 3 \<and>
   fit_batch_size (mnist_fit_args example_outside example_dataset) = Some 32"
proof -
  have reached: "(32, Fit (mnist_fit_args example_outside example_dataset))
     \<in> set (trace (snd (mnist_py example_outside [''mnist.py'', ''--epochs'', ''50'']
                           [''EPOCHS'' \<mapsto> ''50''] (start Map.empty))))"
    by (rule mnist_py_reaches_fit) (simp add: example_outside_def)
  with runs_ignore_argv_and_environ
    [of example_outside "[''mnist.py'', ''--epochs'', ''50'']" "[''EPOCHS'' \<mapsto> ''50'']"
        "start Map.empty" "[''mnist.py'']" Map.empty Map.empty]
  show ?thesis
    by blast
qed

subsection \<open>More on files\<close>

lemma makedirs_pair:
  "makedirs f [a, b] exist_ok =
     (let f1 = (if f [a] = None then f([a] \<mapsto> Dir) else f) in
      case f [a, b] of
        Some n \<Rightarrow>
          (if exist_ok \<and> n = Dir then (Inr (), f1) else (Inl FileExistsError, f1))
      | None \<Rightarrow>
          (if f1 [a] = Some Dir then (Inr (), f1([a, b] \<mapsto> Dir))
           else (Inl NotADirectoryError, f1)))"
  by (simp add: makedirs.simps [of f "[a, b]"] makedirs_single mkdir_def path_exists_def
      isdir_def Let_def split: option.splits)

lemma save_keras_model_Inr:
  assumes "save_keras_model m ''public/model'' f = (Inr u, f')"
  shows "f' [''public'', ''model''] = Some Dir"
    and "f' [''public'', ''model'', weight_file] = Some (File (WeightsBin (weights m)))"
    and "f' [''public'', ''model'', ''model.json'']
           = Some (File (ModelJson (layers m) [weight_file]))"
proof -
  from assms obtain f1 f2 where
    w1: "write_file f1 [''public'', ''model'', weight_file] (WeightsBin (weights m)) = Inr f2"
    and w2: "write_file f2 [''public'', ''model'', ''model.json'']
               (ModelJson (layers m) [weight_file]) = Inr f'"
    by (auto simp: save_keras_model_def components_public_model Let_def
        split: if_splits sum.splits prod.splits)
  from w1 have d: "f1 [''public'', ''model''] = Some Dir"
    and f2: "f2 = f1([''public'', ''model'', weight_file] \<mapsto> File (WeightsBin (weights m)))"
    by (simp_all add: write_file_Inr isdir_def)
  from w2 have f': "f' = f2([''public'', ''model'', ''model.json''] \<mapsto>
                          File (ModelJson (layers m) [weight_file]))"
    by (simp add: write_file_Inr)
  show "f' [''public'', ''model''] = Some Dir"
    by (simp add: f' f2 d)
  show "f' [''public'', ''model'', weight_file] = Some (File (WeightsBin (weights m)))"
    by (simp add: f' f2 weight_file_def)
  show "f' [''public'', ''model'', ''model.json'']
          = Some (File (ModelJson (layers m) [weight_file]))"
    by (simp add: f')
qed

text \<open>What the converter does when its target is a directory already.\<close>

lemma save_keras_model_into_dir:
  assumes "f [''public'', ''model''] = Some Dir"
    and "f [''public'', ''model'', weight_file] \<noteq> Some Dir"
    and "f [''public'', ''model'', ''model.json''] \<noteq> Some Dir"
  shows "save_keras_model m ''public/model'' f =
           (Inr (), f([''public'', ''model'', weight_file] \<mapsto> File (WeightsBin (weights m)),
                      [''public'', ''model'', ''model.json''] \<mapsto>
                        File (ModelJson (layers m) [weight_file])))"
  using assms
  by (simp add: save_keras_model_def components_public_model Let_def isfile_def isdir_def
      write_file_def weight_file_def)

lemma makedirs_single_frame:
  "p \<noteq> [a] \<Longrightarrow> snd (makedirs f [a] exist_ok) p = f p"
  by (simp add: makedirs_single split: option.splits)

lemma makedirs_pair_frame:
  "p \<noteq> [a] \<Longrightarrow> p \<noteq> [a, b] \<Longrightarrow> snd (makedirs f [a, b] exist_ok) p = f p"
  by (simp add: makedirs_pair Let_def split: option.splits)

lemma makedirs_pair_Inr:
  assumes "makedirs f [a, b] True = (Inr u, f1)"
  shows "f1 [a] \<noteq> None" and "f1 [a, b] = Some Dir"
  using assms
  by (auto simp: makedirs_pair Let_def split: option.splits if_splits)

lemma model_save_frame:
  "p \<noteq> components q \<Longrightarrow> snd (model_save m q f) p = f p"
  by (simp add: model_save_def write_file_def split: sum.splits)

lemma save_keras_model_frame:
  assumes "p \<noteq> [''public'']" and "p \<noteq> [''public'', ''model'']"
    and "p \<noteq> [''public'', ''model'', weight_file]"
    and "p \<noteq> [''public'', ''model'', ''model.json'']"
  shows "snd (save_keras_model m ''public/model'' f) p = f p"
proof (cases "isdir f [''public'', ''model'']")
  case True
  with assms show ?thesis
    by (simp add: save_keras_model_def components_public_model Let_def write_file_def)
next
  case False
  have "snd (makedirs f [''public'', ''model''] False) p = f p"
    using assms by (simp add: makedirs_pair_frame)
  with False assms show ?thesis
    by (auto simp: save_keras_model_def components_public_model Let_def write_file_def
        split: prod.splits sum.splits if_splits)
qed

lemma save_keras_model_Inr_dir:
  assumes "f [''public'', ''model''] = Some Dir"
    and "save_keras_model m ''public/model'' f = (Inr u, f')"
  shows "f' = f([''public'', ''model'', weight_file] \<mapsto> File (WeightsBin (weights m)),
                [''public'', ''model'', ''model.json''] \<mapsto>
                  File (ModelJson (layers m) [weight_file]))"
    and "f [''public'', ''model'', weight_file] \<noteq> Some Dir"
    and "f [''public'', ''model'', ''model.json''] \<noteq> Some Dir"
  using assms
  by (auto simp: save_keras_model_def components_public_model Let_def isfile_def isdir_def
      write_file_def weight_file_def split: if_splits)

lemma load_model_Inr:
  "load_model p f = Inr m \<longleftrightarrow> f (components p) = Some (File (H5 m))"
  by (simp add: load_model_def split: option.splits node.splits content.splits)

subsection \<open>The converted artifacts\<close>

text \<open>
  C2. A run of the conversion script that completes had a checkpoint to read and
  leaves the directory \<^verbatim>\<open>public/model\<close> holding the topology descriptor \<^verbatim>\<open>model.json\<close>
  of that model and a file with its weights; so does a completed run of
  \<^verbatim>\<open>train_mnist_model.py\<close>, for the model it trained. With a checkpoint in place and
  nothing at the output paths, the conversion completes.
\<close>

theorem conversion_writes_artifacts:
  "(convert_model_py out argv environ (start f) = (Inr (), w') \<longrightarrow>
      (\<exists>m. f (components ''mnist_model/model.h5'') = Some (File (H5 m)) \<and>
         files w' (components ''public/model'') = Some Dir \<and>
         files w' (components ''public/model'' @ [''model.json''])
           = Some (File (ModelJson (layers m) [weight_file])) \<and>
         files w' (components ''public/model'' @ [weight_file])
           = Some (File (WeightsBin (weights m))))) \<and>
   (train_mnist_model_py out argv environ (start f) = (Inr (), w') \<longrightarrow>
      (\<exists>d ws. load_data out = Inr d \<and> fit out (cnn_fit_args out d) = Inr ws \<and>
         files w' (components ''public/model'') = Some Dir \<and>
         files w' (components ''public/model'' @ [''model.json''])
           = Some (File (ModelJson cnn_layers [weight_file])) \<and>
         files w' (components ''public/model'' @ [weight_file])
           = Some (File (WeightsBin ws)))) \<and>
   (f (components ''mnist_model/model.h5'') = Some (File (H5 m)) \<and>
    f [''public''] = None \<and> f (components ''public/model'') = None \<and>
    f (components ''public/model'' @ [''model.json'']) = None \<and>
    f (components ''public/model'' @ [weight_file]) = None \<longrightarrow>
      fst (convert_model_py out argv environ (start f)) = Inr ())"
proof (intro conjI impI)
  assume "convert_model_py out argv environ (start f) = (Inr (), w')"
  then obtain m f1 where m: "load_model ''mnist_model/model.h5'' f = Inr m"
    and sv: "save_keras_model m ''public/model'' f1 = (Inr (), files w')"
    by (auto simp: convert_model_py_run start_def Let_def split: sum.splits prod.splits)
  from m save_keras_model_Inr [OF sv]
  show "\<exists>m. f (components ''mnist_model/model.h5'') = Some (File (H5 m)) \<and>
         files w' (components ''public/model'') = Some Dir \<and>
         files w' (components ''public/model'' @ [''model.json''])
           = Some (File (ModelJson (layers m) [weight_file])) \<and>
         files w' (components ''public/model'' @ [weight_file])
           = Some (File (WeightsBin (weights m)))"
    by (simp add: load_model_Inr components_public_model)
next
  assume "train_mnist_model_py out argv environ (start f) = (Inr (), w')"
  then obtain d ws where d: "load_data out = Inr d"
    and ws: "fit out (cnn_fit_args out d) = Inr ws"
    and sv: "save_keras_model (trained cnn_layers ws) ''public/model'' f = (Inr (), files w')"
    by (auto simp: train_mnist_model_py_run start_def split: sum.splits prod.splits)
  from d ws save_keras_model_Inr [OF sv]
  show "\<exists>d ws. load_data out = Inr d \<and> fit out (cnn_fit_args out d) = Inr ws \<and>
         files w' (components ''public/model'') = Some Dir \<and>
         files w' (components ''public/model'' @ [''model.json''])
           = Some (File (ModelJson cnn_layers [weight_file])) \<and>
         files w' (components ''public/model'' @ [weight_file])
           = Some (File (WeightsBin ws))"
    by (simp add: components_public_model trained_def)
next
  assume a: "f (components ''mnist_model/model.h5'') = Some (File (H5 m)) \<and>
    f [''public''] = None \<and> f (components ''public/model'') = None \<and>
    f (components ''public/model'' @ [''model.json'']) = None \<and>
    f (components ''public/model'' @ [weight_file]) = None"
  then have m: "load_model ''mnist_model/model.h5'' f = Inr m"
    by (simp add: load_model_Inr)
  from a have mk: "makedirs f (components ''public/model'') True =
      (Inr (), f([''public''] \<mapsto> Dir, [''public'', ''model''] \<mapsto> Dir))"
    by (simp add: components_public_model makedirs_pair)
  from a have "save_keras_model m ''public/model''
                 (f([''public''] \<mapsto> Dir, [''public'', ''model''] \<mapsto> Dir)) =
      (Inr (), f([''public''] \<mapsto> Dir, [''public'', ''model''] \<mapsto> Dir,
                 [''public'', ''model'', weight_file] \<mapsto> File (WeightsBin (weights m)),
                 [''public'', ''model'', ''model.json''] \<mapsto>
                   File (ModelJson (layers m) [weight_file])))"
    by (subst save_keras_model_into_dir) (simp_all add: components_public_model)
  with m mk show "fst (convert_model_py out argv environ (start f)) = Inr ()"
    by (simp add: convert_model_py_run start_def Let_def split: sum.splits prod.splits)
qed

theorem conversion_writes_artifacts_witness:
  "fst (convert_model_py example_outside [] Map.empty (start example_files)) = Inr () \<and>
   files (snd (convert_model_py example_outside [] Map.empty (start example_files)))
     [''public'', ''model''] = Some Dir \<and>
   files (snd (convert_model_py example_outside [] Map.empty (start example_files)))
     [''public'', ''model'', ''model.json'']
       = Some (File (ModelJson mnist_layers [''group1-shard1of1.bin''])) \<and>
   files (snd (convert_model_py example_outside [] Map.empty (start example_files)))
     [''public'', ''model'', ''group1-shard1of1.bin'']
       = Some (File (WeightsBin (\<lambda>k. (\<lambda>idx. 1, \<lambda>j. 0))))"
proof -
  let ?m = "trained mnist_layers (\<lambda>k. (\<lambda>idx. 1, \<lambda>j. 0))"
  let ?run = "convert_model_py example_outside [] Map.empty (start example_files)"
  note inst = conversion_writes_artifacts
    [of example_outside "[]" Map.empty example_files "snd ?run" ?m]
  have pre: "example_files (components ''mnist_model/model.h5'') = Some (File (H5 ?m)) \<and>
    example_files [''public''] = None \<and> example_files (components ''public/model'') = None \<and>
    example_files (components ''public/model'' @ [''model.json'']) = None \<and>
    example_files (components ''public/model'' @ [weight_file]) = None"
    by (simp add: example_files_def components_checkpoint components_public_model)
  with inst have completes: "fst ?run = Inr ()"
    by blast
  then have "?run = (Inr (), snd ?run)"
    by (simp add: prod_eq_iff)
  with inst have "\<exists>m. example_files (components ''mnist_model/model.h5'') = Some (File (H5 m)) \<and>
         files (snd ?run) (components ''public/model'') = Some Dir \<and>
         files (snd ?run) (components ''public/model'' @ [''model.json''])
           = Some (File (ModelJson (layers m) [weight_file])) \<and>
         files (snd ?run) (components ''public/model'' @ [weight_file])
           = Some (File (WeightsBin (weights m)))"
    by blast
  with completes show ?thesis
    by (auto simp: example_files_def components_checkpoint components_public_model
        trained_def weight_file_def)
qed

subsection \<open>Running again\<close>

text \<open>
  C10. With the outputs already present the scripts complete: \<^verbatim>\<open>mnist.py\<close> on an
  existing \<^verbatim>\<open>mnist_model\<close> directory and checkpoint file replaces the checkpoint and
  changes nothing else; the conversion on an existing \<^verbatim>\<open>public/model\<close> directory and
  artifact files replaces the two artifacts and changes nothing else. A run started
  on the files a completed run left completes too and leaves the same files.
\<close>

theorem rerun_overwrites_outputs:
  "(load_data out = Inr d \<and> fit out (mnist_fit_args out d) = Inr ws \<and>
    f (components ''mnist_model'') = Some Dir \<and>
    f (components ''mnist_model/model.h5'') = Some (File c) \<longrightarrow>
      fst (mnist_py out argv environ (start f)) = Inr () \<and>
      files (snd (mnist_py out argv environ (start f))) =
        f(components ''mnist_model/model.h5'' \<mapsto> File (H5 (trained mnist_layers ws)))) \<and>
   (f (components ''mnist_model/model.h5'') = Some (File (H5 m)) \<and>
    f [''public''] = Some Dir \<and>
    f (components ''public/model'') = Some Dir \<and>
    f (components ''public/model'' @ [weight_file]) = Some (File c1) \<and>
    f (components ''public/model'' @ [''model.json'']) = Some (File c2) \<longrightarrow>
      fst (convert_model_py out argv environ (start f)) = Inr () \<and>
      files (snd (convert_model_py out argv environ (start f))) =
        f(components ''public/model'' @ [weight_file] \<mapsto>
            File (WeightsBin (weights m)),
          components ''public/model'' @ [''model.json''] \<mapsto>
            File (ModelJson (layers m) [weight_file]))) \<and>
   (mnist_py out argv environ (start f) = (Inr (), w1) \<longrightarrow>
      fst (mnist_py out argv environ (start (files w1))) = Inr () \<and>
      files (snd (mnist_py out argv environ (start (files w1)))) = files w1) \<and>
   (convert_model_py out argv environ (start f) = (Inr (), w1) \<longrightarrow>
      fst (convert_model_py out argv environ (start (files w1))) = Inr () \<and>
      files (snd (convert_model_py out argv environ (start (files w1)))) = files w1)"
proof (intro conjI impI)
  assume a: "load_data out = Inr d \<and> fit out (mnist_fit_args out d) = Inr ws \<and>
    f (components ''mnist_model'') = Some Dir \<and>
    f (components ''mnist_model/model.h5'') = Some (File c)"
  then have run: "mnist_py out argv environ (start f) =
      (Inr (), \<lparr>files = f([''mnist_model'', ''model.h5''] \<mapsto>
                   File (H5 (trained mnist_layers ws))),
                trace = mnist_statements out d,
                stdout = [[''TensorFlow version:'', tf_version out],
                          [''NumPy version:'', np_version out],
                          [''Model saved successfully!'']],
                keras_cache = Some d\<rparr>)"
    by (simp add: mnist_py_run start_def components_mnist_model components_checkpoint
        makedirs_single model_save_def write_file_def isdir_def)
  show "fst (mnist_py out argv environ (start f)) = Inr ()"
    by (simp add: run)
  show "files (snd (mnist_py out argv environ (start f))) =
        f(components ''mnist_model/model.h5'' \<mapsto> File (H5 (trained mnist_layers ws)))"
    by (simp add: run components_checkpoint)
next
  assume a: "f (components ''mnist_model/model.h5'') = Some (File (H5 m)) \<and>
    f [''public''] = Some Dir \<and>
    f (components ''public/model'') = Some Dir \<and>
    f (components ''public/model'' @ [weight_file]) = Some (File c1) \<and>
    f (components ''public/model'' @ [''model.json'']) = Some (File c2)"
  from a have m: "load_model ''mnist_model/model.h5'' f = Inr m"
    by (simp add: load_model_Inr)
  from a have mk: "makedirs f (components ''public/model'') True = (Inr (), f)"
    by (simp add: components_public_model makedirs_pair)
  from a have sv: "save_keras_model m ''public/model'' f =
      (Inr (), f([''public'', ''model'', weight_file] \<mapsto> File (WeightsBin (weights m)),
                 [''public'', ''model'', ''model.json''] \<mapsto>
                   File (ModelJson (layers m) [weight_file])))"
    by (subst save_keras_model_into_dir) (simp_all add: components_public_model)
  from m mk sv have run: "convert_model_py out argv environ (start f) =
      (Inr (), \<lparr>files = f([''public'', ''model'', weight_file] \<mapsto>
                     File (WeightsBin (weights m)),
                   [''public'', ''model'', ''model.json''] \<mapsto>
                     File (ModelJson (layers m) [weight_file])),
                trace = convert_statements out,
                stdout = [[''TensorFlow.js version:'', tfjs_version out],
                          [''Model converted successfully!'']],
                keras_cache = None\<rparr>)"
    by (simp add: convert_model_py_run start_def Let_def)
  show "fst (convert_model_py out argv environ (start f)) = Inr ()"
    by (simp add: run)
  show "files (snd (convert_model_py out argv environ (start f))) =
        f(components ''public/model'' @ [weight_file] \<mapsto>
            File (WeightsBin (weights m)),
          components ''public/model'' @ [''model.json''] \<mapsto>
            File (ModelJson (layers m) [weight_file]))"
    by (simp add: run components_public_model)
next
  assume run1: "mnist_py out argv environ (start f) = (Inr (), w1)"
  then obtain d ws f1 where d: "load_data out = Inr d"
    and ws: "fit out (mnist_fit_args out d) = Inr ws"
    and sv: "model_save (trained mnist_layers ws) ''mnist_model/model.h5'' f1
               = (Inr (), files w1)"
    by (auto simp: mnist_py_run start_def Let_def split: sum.splits prod.splits)
  from sv have dir: "f1 [''mnist_model''] = Some Dir"
    and w1: "files w1 = f1([''mnist_model'', ''model.h5''] \<mapsto>
               File (H5 (trained mnist_layers ws)))"
    by (simp_all add: model_save_Inr components_checkpoint isdir_def)
  have "files w1 [''mnist_model''] = Some Dir"
    by (simp add: w1 dir)
  moreover have "files w1 [''mnist_model'', ''model.h5'']
      = Some (File (H5 (trained mnist_layers ws)))"
    by (simp add: w1)
  moreover have "(files w1)([''mnist_model'', ''model.h5''] \<mapsto>
      File (H5 (trained mnist_layers ws))) = files w1"
    by (simp add: w1)
  ultimately have "mnist_py out argv environ (start (files w1)) =
      (Inr (), \<lparr>files = files w1, trace = mnist_statements out d,
                stdout = [[''TensorFlow version:'', tf_version out],
                          [''NumPy version:'', np_version out],
                          [''Model saved successfully!'']],
                keras_cache = Some d\<rparr>)"
    using d ws
    by (simp add: mnist_py_run start_def components_mnist_model components_checkpoint
        makedirs_single model_save_def write_file_def isdir_def)
  then show "fst (mnist_py out argv environ (start (files w1))) = Inr ()"
    and "files (snd (mnist_py out argv environ (start (files w1)))) = files w1"
    by simp_all
next
  assume run1: "convert_model_py out argv environ (start f) = (Inr (), w1)"
  then obtain m f1 where m: "load_model ''mnist_model/model.h5'' f = Inr m"
    and mk: "makedirs f (components ''public/model'') True = (Inr (), f1)"
    and sv: "save_keras_model m ''public/model'' f1 = (Inr (), files w1)"
    by (auto simp: convert_model_py_run start_def Let_def split: sum.splits prod.splits)
  from makedirs_pair_Inr [OF mk [unfolded components_public_model]]
  have pub: "f1 [''public''] \<noteq> None" and dir: "f1 [''public'', ''model''] = Some Dir"
    by simp_all
  have ck: "f1 [''mnist_model'', ''model.h5''] = f [''mnist_model'', ''model.h5'']"
    using makedirs_pair_frame [of "[''mnist_model'', ''model.h5'']" "''public''" "''model''"
        f True] mk
    by (simp add: components_public_model)
  note sv' = save_keras_model_Inr_dir [OF dir sv]
  have m': "load_model ''mnist_model/model.h5'' (files w1) = Inr m"
    using m ck by (simp add: load_model_def components_checkpoint sv'(1))
  have mk': "makedirs (files w1) (components ''public/model'') True = (Inr (), files w1)"
    using pub dir by (auto simp: components_public_model makedirs_pair sv'(1))
  have "save_keras_model m ''public/model'' (files w1) =
      (Inr (), (files w1)([''public'', ''model'', weight_file] \<mapsto>
                   File (WeightsBin (weights m)),
                 [''public'', ''model'', ''model.json''] \<mapsto>
                   File (ModelJson (layers m) [weight_file])))"
    using dir by (subst save_keras_model_into_dir) (simp_all add: sv'(1) weight_file_def)
  moreover have "(files w1)([''public'', ''model'', weight_file] \<mapsto>
                   File (WeightsBin (weights m)),
                 [''public'', ''model'', ''model.json''] \<mapsto>
                   File (ModelJson (layers m) [weight_file])) = files w1"
    by (simp add: sv'(1))
  ultimately have "save_keras_model m ''public/model'' (files w1) = (Inr (), files w1)"
    by simp
  with m' mk' have "convert_model_py out argv environ (start (files w1)) =
      (Inr (), \<lparr>files = files w1, trace = convert_statements out,
                stdout = [[''TensorFlow.js version:'', tfjs_version out],
                          [''Model converted successfully!'']],
                keras_cache = None\<rparr>)"
    by (simp add: convert_model_py_run start_def Let_def)
  then show "fst (convert_model_py out argv environ (start (files w1))) = Inr ()"
    and "files (snd (convert_model_py out argv environ (start (files w1)))) = files w1"
    by simp_all
qed

theorem rerun_overwrites_outputs_witness:
  "stale_files [''mnist_model''] = Some Dir \<and>
   stale_files [''mnist_model'', ''model.h5''] = Some (File (Other ''stale'')) \<and>
   fst (mnist_py example_outside [] Map.empty (start stale_files)) = Inr () \<and>
   files (snd (mnist_py example_outside [] Map.empty (start stale_files)))
     [''mnist_model'', ''model.h5'']
       = Some (File (H5 (trained mnist_layers (\<lambda>k. (\<lambda>idx. 1, \<lambda>j. 0)))))"
proof -
  have pre: "load_data example_outside = Inr example_dataset \<and>
      fit example_outside (mnist_fit_args example_outside example_dataset)
        = Inr (\<lambda>k. (\<lambda>idx. 1, \<lambda>j. 0)) \<and>
      stale_files (components ''mnist_model'') = Some Dir \<and>
      stale_files (components ''mnist_model/model.h5'') = Some (File (Other ''stale''))"
    by (simp add: example_outside_def stale_files_def components_mnist_model
        components_checkpoint)
  with rerun_overwrites_outputs
    [of example_outside example_dataset "\<lambda>k. (\<lambda>idx. 1, \<lambda>j. 0)" stale_files
        "Other ''stale''" "[]" Map.empty]
  have "fst (mnist_py example_outside [] Map.empty (start stale_files)) = Inr () \<and>
      files (snd (mnist_py example_outside [] Map.empty (start stale_files))) =
        stale_files(components ''mnist_model/model.h5'' \<mapsto>
          File (H5 (trained mnist_layers (\<lambda>k. (\<lambda>idx. 1, \<lambda>j. 0)))))"
    by blast
  then show ?thesis
    by (simp add: stale_files_def components_checkpoint)
qed

subsection \<open>Order of execution\<close>

lemma mnist_py_files_eq:
  "files (snd (mnist_py out argv environ w)) =
     (case fetched out w of
        Inl e \<Rightarrow> files w
      | Inr d \<Rightarrow>
          (case fit out (mnist_fit_args out d) of
             Inl e \<Rightarrow> files w
           | Inr ws \<Rightarrow>
               (case fst (makedirs (files w) [''mnist_model''] True) of
                  Inl e \<Rightarrow> snd (makedirs (files w) [''mnist_model''] True)
                | Inr u \<Rightarrow>
                    snd (model_save (trained mnist_layers ws) ''mnist_model/model.h5''
                           (snd (makedirs (files w) [''mnist_model''] True))))))"
  by (simp add: mnist_py_run_any_cache Let_def components_mnist_model
      split: sum.splits prod.splits)

lemma mnist_py_files:
  assumes "p \<noteq> [''mnist_model'']" and "p \<noteq> [''mnist_model'', ''model.h5'']"
  shows "files (snd (mnist_py out argv environ w)) p = files w p"
  using assms
  by (simp add: mnist_py_files_eq makedirs_single_frame model_save_frame
      components_checkpoint split: sum.splits)

lemma train_py_files_eq:
  "files (snd (train_mnist_model_py out argv environ w)) =
     (case fetched out w of
        Inl e \<Rightarrow> files w
      | Inr d \<Rightarrow>
          (case fit out (cnn_fit_args out d) of
             Inl e \<Rightarrow> files w
           | Inr ws \<Rightarrow>
               snd (save_keras_model (trained cnn_layers ws) ''public/model'' (files w))))"
  by (simp add: train_mnist_model_py_run_any_cache split: sum.splits prod.splits)

lemma train_py_files:
  assumes "p \<noteq> [''public'']" and "p \<noteq> [''public'', ''model'']"
    and "p \<noteq> [''public'', ''model'', weight_file]"
    and "p \<noteq> [''public'', ''model'', ''model.json'']"
  shows "files (snd (train_mnist_model_py out argv environ w)) p = files w p"
  using assms
  by (simp add: train_py_files_eq save_keras_model_frame split: sum.splits)

lemma convert_py_files_eq:
  "files (snd (convert_model_py out argv environ w)) =
     (case load_model ''mnist_model/model.h5'' (files w) of
        Inl e \<Rightarrow> files w
      | Inr m \<Rightarrow>
          (case fst (makedirs (files w) [''public'', ''model''] True) of
             Inl e \<Rightarrow> snd (makedirs (files w) [''public'', ''model''] True)
           | Inr u \<Rightarrow>
               snd (save_keras_model m ''public/model''
                      (snd (makedirs (files w) [''public'', ''model''] True)))))"
  by (simp add: convert_model_py_run Let_def components_public_model
      split: sum.splits prod.splits)

lemma convert_py_files:
  assumes "p \<noteq> [''public'']" and "p \<noteq> [''public'', ''model'']"
    and "p \<noteq> [''public'', ''model'', weight_file]"
    and "p \<noteq> [''public'', ''model'', ''model.json'']"
  shows "files (snd (convert_model_py out argv environ w)) p = files w p"
  using assms
  by (simp add: convert_py_files_eq makedirs_pair_frame save_keras_model_frame
      split: sum.splits)

text \<open>What a run leaves in the loader's cache.\<close>

lemma mnist_py_cache:
  "keras_cache (snd (mnist_py out argv environ w)) =
     (case fetched out w of Inl e \<Rightarrow> keras_cache w | Inr d \<Rightarrow> Some d)"
  by (simp add: mnist_py_run_any_cache Let_def split: sum.splits prod.splits)

lemma train_py_cache:
  "keras_cache (snd (train_mnist_model_py out argv environ w)) =
     (case fetched out w of Inl e \<Rightarrow> keras_cache w | Inr d \<Rightarrow> Some d)"
  by (simp add: train_mnist_model_py_run_any_cache split: sum.splits prod.splits)

lemma convert_py_cache:
  "keras_cache (snd (convert_model_py out argv environ w)) = keras_cache w"
  by (simp add: convert_model_py_run Let_def split: sum.splits prod.splits)

lemma mnist_py_lines:
  "map fst (trace (snd (mnist_py out argv environ (start f)))) \<in>
     {[1, 2, 3, 5, 6, 9, 10], [1, 2, 3, 5, 6, 9, 10, 13, 14, 17, 25, 32], [1, 2, 3, 5, 6, 9, 10, 13, 14, 17, 25, 32, 40],
      [1, 2, 3, 5, 6, 9, 10, 13, 14, 17, 25, 32, 40, 43],
      [1, 2, 3, 5, 6, 9, 10, 13, 14, 17, 25, 32, 40, 43, 44]}"
  by (simp add: mnist_py_run start_def Let_def mnist_statements_def
      split: sum.splits prod.splits)

lemma train_py_lines:
  "map fst (trace (snd (train_mnist_model_py out argv environ (start f)))) \<in>
     {[1, 2, 5, 6], [1, 2, 5, 6, 9, 10, 13, 31, 38], [1, 2, 5, 6, 9, 10, 13, 31, 38, 45]}"
  by (simp add: train_mnist_model_py_run start_def train_statements_def
      split: sum.splits prod.splits)

lemma convert_py_lines:
  "map fst (trace (snd (convert_model_py out argv environ (start f)))) \<in>
     {[1, 2, 3, 5, 8], [1, 2, 3, 5, 8, 11], [1, 2, 3, 5, 8, 11, 14], [1, 2, 3, 5, 8, 11, 14, 15]}"
  by (simp add: convert_model_py_run start_def Let_def convert_statements_def
      split: sum.splits prod.splits)

lemma mnist_py_completed:
  assumes "fst (mnist_py out argv environ (start f)) = Inr ()"
  shows "\<exists>d ws. load_data out = Inr d \<and> fit out (mnist_fit_args out d) = Inr ws \<and>
           trace (snd (mnist_py out argv environ (start f))) = mnist_statements out d"
  using assms
  by (auto simp: mnist_py_run start_def Let_def split: sum.splits prod.splits)

lemma train_py_completed:
  assumes "fst (train_mnist_model_py out argv environ (start f)) = Inr ()"
  shows "\<exists>d ws. load_data out = Inr d \<and> fit out (cnn_fit_args out d) = Inr ws \<and>
           trace (snd (train_mnist_model_py out argv environ (start f)))
             = train_statements out d"
  using assms
  by (auto simp: train_mnist_model_py_run start_def split: sum.splits prod.splits)

lemma convert_py_completed:
  assumes "fst (convert_model_py out argv environ (start f)) = Inr ()"
  shows "trace (snd (convert_model_py out argv environ (start f))) = convert_statements out"
  using assms
  by (auto simp: convert_model_py_run start_def Let_def split: sum.splits prod.splits)

lemma mnist_py_export_event:
  assumes "(l, c) \<in> set (trace (snd (mnist_py out argv environ (start f))))"
    and "stage_of c = Export"
  shows "32 < l \<and> (\<exists>d ws. load_data out = Inr d \<and> fit out (mnist_fit_args out d) = Inr ws)"
  using assms
  by (auto simp: mnist_py_run start_def Let_def mnist_statements_def
      split: sum.splits prod.splits)

lemma train_py_export_event:
  assumes "(l, c) \<in> set (trace (snd (train_mnist_model_py out argv environ (start f))))"
    and "stage_of c = Export"
  shows "38 < l \<and> (\<exists>d ws. load_data out = Inr d \<and> fit out (cnn_fit_args out d) = Inr ws)"
  using assms
  by (auto simp: train_mnist_model_py_run start_def train_statements_def
      split: sum.splits prod.splits)

lemma convert_py_export_event:
  assumes "(l, c) \<in> set (trace (snd (convert_model_py out argv environ (start f))))"
    and "stage_of c = Export"
  shows "8 < l \<and> (\<exists>m. load_model ''mnist_model/model.h5'' f = Inr m)"
  using assms
  by (auto simp: convert_model_py_run start_def Let_def convert_statements_def
      split: sum.splits prod.splits)

lemma example_mnist_run:
  "fst (mnist_py example_outside [] Map.empty (start Map.empty)) = Inr ()"
  by (simp add: mnist_py_run start_def Let_def example_outside_def components_mnist_model
      components_checkpoint makedirs_single model_save_def write_file_def isdir_def)

lemma example_convert_run:
  "fst (convert_model_py example_outside [] Map.empty (start example_files)) = Inr ()"
proof -
  have "load_model ''mnist_model/model.h5'' example_files
          = Inr (trained mnist_layers (\<lambda>k. (\<lambda>idx. 1, \<lambda>j. 0)))"
    by (simp add: load_model_Inr example_files_def components_checkpoint)
  moreover have "makedirs example_files (components ''public/model'') True =
      (Inr (), example_files([''public''] \<mapsto> Dir, [''public'', ''model''] \<mapsto> Dir))"
    by (simp add: components_public_model makedirs_pair example_files_def)
  moreover have "fst (save_keras_model m ''public/model''
      (example_files([''public''] \<mapsto> Dir, [''public'', ''model''] \<mapsto> Dir))) = Inr ()" for m
    by (subst save_keras_model_into_dir) (simp_all add: example_files_def weight_file_def)
  ultimately show ?thesis
    by (simp add: convert_model_py_run start_def Let_def split: sum.splits prod.splits)
      (metis fst_conv sum.distinct(1))
qed

lemma stages_mnist_statements:
  "stages (mnist_statements out d)
     = [DataLoading, Preprocessing, ModelBuilding, Training, Export]"
  by (simp add: stages_def mnist_statements_def)

lemma stages_train_statements:
  "stages (train_statements out d)
     = [DataLoading, Preprocessing, ModelBuilding, Training, Export]"
  by (simp add: stages_def train_statements_def)

lemma stages_convert_statements:
  "stages (convert_statements out) = [CheckpointLoading, Export]"
  by (simp add: stages_def convert_statements_def)

lemma example_mnist_world:
  "mnist_py example_outside [] Map.empty (start Map.empty) =
     (Inr (),
      \<lparr>files = [[''mnist_model''] \<mapsto> Dir,
                [''mnist_model'', ''model.h5''] \<mapsto>
                  File (H5 (trained mnist_layers (\<lambda>k. (\<lambda>idx. 1, \<lambda>j. 0))))],
       trace = mnist_statements example_outside example_dataset,
       stdout = [[''TensorFlow version:'', ''2.15.0''], [''NumPy version:'', ''1.26.4''],
                 [''Model saved successfully!'']],
       keras_cache = Some example_dataset\<rparr>)"
  by (simp add: mnist_py_run start_def Let_def example_outside_def components_mnist_model
      components_checkpoint makedirs_single model_save_def write_file_def isdir_def)

text \<open>
  C7, as stated, fails on the conversion script: a run of it that completes loads a
  checkpoint and exports, with no data loading, preprocessing, model building or
  training. It also fails on a run that ends early: when the dataset cannot be
  fetched, a run of \<^verbatim>\<open>mnist.py\<close> gets no further than data loading. And a run leaves
  more than its output files: after a completed run of \<^verbatim>\<open>mnist.py\<close> the loader's
  cache holds the dataset, so that the next run completes without a network, where
  a run on the same files and an empty cache ends with the loader's exception.
\<close>

theorem convert_run_counterexample:
  "fst (convert_model_py example_outside [] Map.empty (start example_files)) = Inr () \<and>
   stages (trace (snd (convert_model_py example_outside [] Map.empty (start example_files))))
     = [CheckpointLoading, Export] \<and>
   stages (trace (snd (convert_model_py example_outside [] Map.empty (start example_files))))
     \<noteq> [DataLoading, Preprocessing, ModelBuilding, Training, Export] \<and>
   stages (trace (snd (mnist_py offline [] Map.empty (start Map.empty)))) = [DataLoading] \<and>
   keras_cache (start Map.empty) = None \<and>
   keras_cache (snd (mnist_py example_outside [] Map.empty (start Map.empty)))
     = Some example_dataset \<and>
   fst (mnist_py offline [] Map.empty
          (resume (snd (mnist_py example_outside [] Map.empty (start Map.empty))))) = Inr () \<and>
   fst (mnist_py offline [] Map.empty
          (start (files (snd (mnist_py example_outside [] Map.empty (start Map.empty))))))
     = Inl (LibraryError ''dataset unavailable'')"
proof -
  have off: "load_data offline = Inl (LibraryError ''dataset unavailable'')"
    by (simp add: offline_def)
  then have early: "stages (trace (snd (mnist_py offline [] Map.empty (start Map.empty))))
               = [DataLoading]"
    by (simp add: mnist_py_trace_failed_load stages_def)
  have again: "fst (mnist_py offline [] Map.empty
          (resume (snd (mnist_py example_outside [] Map.empty (start Map.empty))))) = Inr ()"
    unfolding example_mnist_world snd_conv
    by (simp add: resume_def mnist_py_run_any_cache fetched_def Let_def
        offline_def example_outside_def components_mnist_model components_checkpoint
        makedirs_single model_save_def write_file_def isdir_def)
  have fresh: "fst (mnist_py offline [] Map.empty
          (start (files (snd (mnist_py example_outside [] Map.empty (start Map.empty))))))
     = Inl (LibraryError ''dataset unavailable'')"
    using off by (simp add: mnist_py_run start_def Let_def)
  have empty: "keras_cache (start Map.empty) = None"
    by (simp add: start_def)
  have left: "keras_cache (snd (mnist_py example_outside [] Map.empty (start Map.empty)))
     = Some example_dataset"
    by (simp add: example_mnist_world)
  show ?thesis
    using convert_py_completed [OF example_convert_run] example_convert_run early again fresh
      empty left
    by (simp add: stages_convert_statements)
qed

text \<open>
  C7, amended. Every run of a script executes a prefix of its statements from top
  to bottom, each once, always the same ones. A completed run of either training
  script goes through data loading, preprocessing, model building, training and
  export, in that order; a completed run of the conversion script goes through
  checkpoint loading and export. An export statement runs only after training (in
  the conversion script: loading) has returned. What a run leaves for the next one
  is its output files and the loader's cache: no other file changes, the conversion
  leaves the cache as it was, and a training script leaves in it the dataset the
  loader returned.
\<close>

theorem scripts_run_in_order:
  "prefix (map fst (trace (snd (mnist_py out argv environ (start f)))))
     [1, 2, 3, 5, 6, 9, 10, 13, 14, 17, 25, 32, 40, 43, 44] \<and>
   prefix (map fst (trace (snd (train_mnist_model_py out argv environ (start f)))))
     [1, 2, 5, 6, 9, 10, 13, 31, 38, 45] \<and>
   prefix (map fst (trace (snd (convert_model_py out argv environ (start f)))))
     [1, 2, 3, 5, 8, 11, 14, 15] \<and>
   (fst (mnist_py out argv environ (start f)) = Inr () \<longrightarrow>
      map fst (trace (snd (mnist_py out argv environ (start f))))
        = [1, 2, 3, 5, 6, 9, 10, 13, 14, 17, 25, 32, 40, 43, 44] \<and>
      stages (trace (snd (mnist_py out argv environ (start f))))
        = [DataLoading, Preprocessing, ModelBuilding, Training, Export]) \<and>
   (fst (train_mnist_model_py out argv environ (start f)) = Inr () \<longrightarrow>
      map fst (trace (snd (train_mnist_model_py out argv environ (start f))))
        = [1, 2, 5, 6, 9, 10, 13, 31, 38, 45] \<and>
      stages (trace (snd (train_mnist_model_py out argv environ (start f))))
        = [DataLoading, Preprocessing, ModelBuilding, Training, Export]) \<and>
   (fst (convert_model_py out argv environ (start f)) = Inr () \<longrightarrow>
      map fst (trace (snd (convert_model_py out argv environ (start f))))
        = [1, 2, 3, 5, 8, 11, 14, 15] \<and>
      stages (trace (snd (convert_model_py out argv environ (start f))))
        = [CheckpointLoading, Export]) \<and>
   (\<forall>l c. (l, c) \<in> set (trace (snd (mnist_py out argv environ (start f)))) \<and>
           stage_of c = Export \<longrightarrow>
      32 < l \<and>
      (\<exists>d ws. load_data out = Inr d \<and> fit out (mnist_fit_args out d) = Inr ws)) \<and>
   (\<forall>l c. (l, c) \<in> set (trace (snd (train_mnist_model_py out argv environ (start f)))) \<and>
           stage_of c = Export \<longrightarrow>
      38 < l \<and>
      (\<exists>d ws. load_data out = Inr d \<and> fit out (cnn_fit_args out d) = Inr ws)) \<and>
   (\<forall>l c. (l, c) \<in> set (trace (snd (convert_model_py out argv environ (start f)))) \<and>
           stage_of c = Export \<longrightarrow>
      8 < l \<and> (\<exists>m. load_model ''mnist_model/model.h5'' f = Inr m)) \<and>
   (\<forall>p. p \<noteq> components ''mnist_model'' \<and> p \<noteq> components ''mnist_model/model.h5'' \<longrightarrow>
      files (snd (mnist_py out argv environ w)) p = files w p) \<and>
   (\<forall>p. p \<noteq> [''public''] \<and> p \<noteq> components ''public/model'' \<and>
        p \<noteq> components ''public/model'' @ [weight_file] \<and>
        p \<noteq> components ''public/model'' @ [''model.json''] \<longrightarrow>
      files (snd (train_mnist_model_py out argv environ w)) p = files w p \<and>
      files (snd (convert_model_py out argv environ w)) p = files w p) \<and>
   keras_cache (snd (convert_model_py out argv environ w)) = keras_cache w \<and>
   keras_cache (snd (mnist_py out argv environ w)) =
     (case fetched out w of Inl e \<Rightarrow> keras_cache w | Inr d \<Rightarrow> Some d) \<and>
   keras_cache (snd (train_mnist_model_py out argv environ w)) =
     (case fetched out w of Inl e \<Rightarrow> keras_cache w | Inr d \<Rightarrow> Some d)"
proof (intro conjI allI impI)
  show "prefix (map fst (trace (snd (mnist_py out argv environ (start f)))))
     [1, 2, 3, 5, 6, 9, 10, 13, 14, 17, 25, 32, 40, 43, 44]"
    using mnist_py_lines [of out argv environ f] by auto
  show "prefix (map fst (trace (snd (train_mnist_model_py out argv environ (start f)))))
     [1, 2, 5, 6, 9, 10, 13, 31, 38, 45]"
    using train_py_lines [of out argv environ f] by auto
  show "prefix (map fst (trace (snd (convert_model_py out argv environ (start f)))))
     [1, 2, 3, 5, 8, 11, 14, 15]"
    using convert_py_lines [of out argv environ f] by auto
  show "keras_cache (snd (convert_model_py out argv environ w)) = keras_cache w"
    by (rule convert_py_cache)
  show "keras_cache (snd (mnist_py out argv environ w)) =
     (case fetched out w of Inl e \<Rightarrow> keras_cache w | Inr d \<Rightarrow> Some d)"
    by (rule mnist_py_cache)
  show "keras_cache (snd (train_mnist_model_py out argv environ w)) =
     (case fetched out w of Inl e \<Rightarrow> keras_cache w | Inr d \<Rightarrow> Some d)"
    by (rule train_py_cache)
next
  assume "fst (mnist_py out argv environ (start f)) = Inr ()"
  from mnist_py_completed [OF this]
  show "map fst (trace (snd (mnist_py out argv environ (start f))))
        = [1, 2, 3, 5, 6, 9, 10, 13, 14, 17, 25, 32, 40, 43, 44]"
    and "stages (trace (snd (mnist_py out argv environ (start f))))
        = [DataLoading, Preprocessing, ModelBuilding, Training, Export]"
    by (auto simp: stages_mnist_statements) (simp add: mnist_statements_def)
next
  assume "fst (train_mnist_model_py out argv environ (start f)) = Inr ()"
  from train_py_completed [OF this]
  show "map fst (trace (snd (train_mnist_model_py out argv environ (start f))))
        = [1, 2, 5, 6, 9, 10, 13, 31, 38, 45]"
    and "stages (trace (snd (train_mnist_model_py out argv environ (start f))))
        = [DataLoading, Preprocessing, ModelBuilding, Training, Export]"
    by (auto simp: stages_train_statements) (simp add: train_statements_def)
next
  assume "fst (convert_model_py out argv environ (start f)) = Inr ()"
  from convert_py_completed [OF this]
  show "map fst (trace (snd (convert_model_py out argv environ (start f))))
        = [1, 2, 3, 5, 8, 11, 14, 15]"
    and "stages (trace (snd (convert_model_py out argv environ (start f))))
        = [CheckpointLoading, Export]"
    by (simp_all add: stages_convert_statements) (simp add: convert_statements_def)
next
  fix l c
  assume "(l, c) \<in> set (trace (snd (mnist_py out argv environ (start f)))) \<and>
          stage_of c = Export"
  then show "32 < l"
    and "\<exists>d ws. load_data out = Inr d \<and> fit out (mnist_fit_args out d) = Inr ws"
    using mnist_py_export_event [of l c out argv environ f] by simp_all
next
  fix l c
  assume "(l, c) \<in> set (trace (snd (train_mnist_model_py out argv environ (start f)))) \<and>
          stage_of c = Export"
  then show "38 < l"
    and "\<exists>d ws. load_data out = Inr d \<and> fit out (cnn_fit_args out d) = Inr ws"
    using train_py_export_event [of l c out argv environ f] by simp_all
next
  fix l c
  assume "(l, c) \<in> set (trace (snd (convert_model_py out argv environ (start f)))) \<and>
          stage_of c = Export"
  then show "8 < l" and "\<exists>m. load_model ''mnist_model/model.h5'' f = Inr m"
    using convert_py_export_event [of l c out argv environ f] by simp_all
next
  fix p :: path
  assume "p \<noteq> components ''mnist_model'' \<and> p \<noteq> components ''mnist_model/model.h5''"
  then show "files (snd (mnist_py out argv environ w)) p = files w p"
    by (simp add: mnist_py_files components_mnist_model components_checkpoint)
next
  fix p :: path
  assume "p \<noteq> [''public''] \<and> p \<noteq> components ''public/model'' \<and>
        p \<noteq> components ''public/model'' @ [weight_file] \<and>
        p \<noteq> components ''public/model'' @ [''model.json'']"
  then show "files (snd (train_mnist_model_py out argv environ w)) p = files w p"
    and "files (snd (convert_model_py out argv environ w)) p = files w p"
    by (simp_all add: train_py_files convert_py_files components_public_model)
qed

theorem scripts_run_in_order_witness:
  "fst (mnist_py example_outside [] Map.empty (start Map.empty)) = Inr () \<and>
   map fst (trace (snd (mnist_py example_outside [] Map.empty (start Map.empty))))
     = [1, 2, 3, 5, 6, 9, 10, 13, 14, 17, 25, 32, 40, 43, 44] \<and>
   stages (trace (snd (mnist_py example_outside [] Map.empty (start Map.empty))))
     = [DataLoading, Preprocessing, ModelBuilding, Training, Export] \<and>
   fst (convert_model_py example_outside [] Map.empty (start example_files)) = Inr () \<and>
   stages (trace (snd (convert_model_py example_outside [] Map.empty (start example_files))))
     = [CheckpointLoading, Export] \<and>
   files (snd (mnist_py example_outside [] Map.empty (start Map.empty))) [''public''] = None \<and>
   keras_cache (snd (mnist_py example_outside [] Map.empty (start Map.empty)))
     = Some example_dataset \<and>
   keras_cache (snd (convert_model_py example_outside [] Map.empty (start example_files)))
     = None"
  using scripts_run_in_order [of example_outside "[]" Map.empty Map.empty "start Map.empty"]
    scripts_run_in_order [of example_outside "[]" Map.empty example_files "start example_files"]
    example_mnist_run example_convert_run
  by (simp add: components_mnist_model components_checkpoint fetched_def)
    (simp add: start_def example_outside_def)

subsection \<open>Failures\<close>

text \<open>
  C5. Whatever call fails first (loading the dataset, training, creating the
  directory, saving, loading the checkpoint, converting), the script ends with that
  exception, and no later statement is executed. When the dataset or the
  checkpoint cannot be loaded no file has been changed; in particular, with no file
  at \<^verbatim>\<open>mnist_model/model.h5\<close> the conversion ends with the \<^verbatim>\<open>OSError\<close> of
  \<^verbatim>\<open>load_model\<close> at line 8, before \<^verbatim>\<open>public/model\<close> is created or anything is
  written.
\<close>

theorem failures_propagate:
  "(load_data out = Inl e \<longrightarrow>
      fst (mnist_py out argv environ (start f)) = Inl e \<and>
      map fst (trace (snd (mnist_py out argv environ (start f)))) = [1, 2, 3, 5, 6, 9, 10] \<and>
      files (snd (mnist_py out argv environ (start f))) = f \<and>
      fst (train_mnist_model_py out argv environ (start f)) = Inl e \<and>
      map fst (trace (snd (train_mnist_model_py out argv environ (start f)))) = [1, 2, 5, 6] \<and>
      files (snd (train_mnist_model_py out argv environ (start f))) = f) \<and>
   (load_data out = Inr d \<and> fit out (mnist_fit_args out d) = Inl e \<longrightarrow>
      fst (mnist_py out argv environ (start f)) = Inl e \<and>
      map fst (trace (snd (mnist_py out argv environ (start f))))
        = [1, 2, 3, 5, 6, 9, 10, 13, 14, 17, 25, 32] \<and>
      files (snd (mnist_py out argv environ (start f))) = f) \<and>
   (load_data out = Inr d \<and> fit out (cnn_fit_args out d) = Inl e \<longrightarrow>
      fst (train_mnist_model_py out argv environ (start f)) = Inl e \<and>
      map fst (trace (snd (train_mnist_model_py out argv environ (start f))))
        = [1, 2, 5, 6, 9, 10, 13, 31, 38] \<and>
      files (snd (train_mnist_model_py out argv environ (start f))) = f) \<and>
   (load_data out = Inr d \<and> fit out (mnist_fit_args out d) = Inr ws \<and>
    makedirs f (components ''mnist_model'') True = (Inl e, f1) \<longrightarrow>
      fst (mnist_py out argv environ (start f)) = Inl e \<and>
      map fst (trace (snd (mnist_py out argv environ (start f))))
        = [1, 2, 3, 5, 6, 9, 10, 13, 14, 17, 25, 32, 40]) \<and>
   (load_data out = Inr d \<and> fit out (mnist_fit_args out d) = Inr ws \<and>
    makedirs f (components ''mnist_model'') True = (Inr (), f1) \<and>
    model_save (trained mnist_layers ws) ''mnist_model/model.h5'' f1 = (Inl e, f2) \<longrightarrow>
      fst (mnist_py out argv environ (start f)) = Inl e \<and>
      map fst (trace (snd (mnist_py out argv environ (start f))))
        = [1, 2, 3, 5, 6, 9, 10, 13, 14, 17, 25, 32, 40, 43]) \<and>
   (load_data out = Inr d \<and> fit out (cnn_fit_args out d) = Inr ws \<and>
    save_keras_model (trained cnn_layers ws) ''public/model'' f = (Inl e, f1) \<longrightarrow>
      fst (train_mnist_model_py out argv environ (start f)) = Inl e) \<and>
   (load_model ''mnist_model/model.h5'' f = Inl e \<longrightarrow>
      fst (convert_model_py out argv environ (start f)) = Inl e \<and>
      map fst (trace (snd (convert_model_py out argv environ (start f)))) = [1, 2, 3, 5, 8] \<and>
      files (snd (convert_model_py out argv environ (start f))) = f) \<and>
   (f (components ''mnist_model/model.h5'') = None \<longrightarrow>
      convert_model_py out argv environ (start f) =
        (Inl OSError,
         \<lparr>files = f,
          trace = [(1, Import ''tensorflowjs''), (2, Import ''tensorflow''),
                   (3, Import ''os''),
                   (5, Print [''TensorFlow.js version:'', tfjs_version out]),
                   (8, LoadModel ''mnist_model/model.h5'')],
          stdout = [[''TensorFlow.js version:'', tfjs_version out]],
          keras_cache = None\<rparr>)) \<and>
   (load_model ''mnist_model/model.h5'' f = Inr m \<and>
    makedirs f (components ''public/model'') True = (Inl e, f1) \<longrightarrow>
      fst (convert_model_py out argv environ (start f)) = Inl e \<and>
      map fst (trace (snd (convert_model_py out argv environ (start f)))) = [1, 2, 3, 5, 8, 11]) \<and>
   (load_model ''mnist_model/model.h5'' f = Inr m \<and>
    makedirs f (components ''public/model'') True = (Inr (), f1) \<and>
    save_keras_model m ''public/model'' f1 = (Inl e, f2) \<longrightarrow>
      fst (convert_model_py out argv environ (start f)) = Inl e \<and>
      map fst (trace (snd (convert_model_py out argv environ (start f))))
        = [1, 2, 3, 5, 8, 11, 14])"
proof (intro conjI impI)
  assume "load_data out = Inl e"
  then show "fst (mnist_py out argv environ (start f)) = Inl e"
    and "map fst (trace (snd (mnist_py out argv environ (start f)))) = [1, 2, 3, 5, 6, 9, 10]"
    and "files (snd (mnist_py out argv environ (start f))) = f"
    and "fst (train_mnist_model_py out argv environ (start f)) = Inl e"
    and "map fst (trace (snd (train_mnist_model_py out argv environ (start f)))) = [1, 2, 5, 6]"
    and "files (snd (train_mnist_model_py out argv environ (start f))) = f"
    by (simp_all add: mnist_py_run train_mnist_model_py_run start_def Let_def)
next
  assume "load_data out = Inr d \<and> fit out (mnist_fit_args out d) = Inl e"
  then show "fst (mnist_py out argv environ (start f)) = Inl e"
    and "map fst (trace (snd (mnist_py out argv environ (start f))))
        = [1, 2, 3, 5, 6, 9, 10, 13, 14, 17, 25, 32]"
    and "files (snd (mnist_py out argv environ (start f))) = f"
    by (simp_all add: mnist_py_run start_def Let_def mnist_statements_def)
next
  assume "load_data out = Inr d \<and> fit out (cnn_fit_args out d) = Inl e"
  then show "fst (train_mnist_model_py out argv environ (start f)) = Inl e"
    and "map fst (trace (snd (train_mnist_model_py out argv environ (start f))))
        = [1, 2, 5, 6, 9, 10, 13, 31, 38]"
    and "files (snd (train_mnist_model_py out argv environ (start f))) = f"
    by (simp_all add: train_mnist_model_py_run start_def train_statements_def)
next
  assume "load_data out = Inr d \<and> fit out (mnist_fit_args out d) = Inr ws \<and>
    makedirs f (components ''mnist_model'') True = (Inl e, f1)"
  then show "fst (mnist_py out argv environ (start f)) = Inl e"
    and "map fst (trace (snd (mnist_py out argv environ (start f))))
        = [1, 2, 3, 5, 6, 9, 10, 13, 14, 17, 25, 32, 40]"
    by (simp_all add: mnist_py_run start_def Let_def mnist_statements_def)
next
  assume "load_data out = Inr d \<and> fit out (mnist_fit_args out d) = Inr ws \<and>
    makedirs f (components ''mnist_model'') True = (Inr (), f1) \<and>
    model_save (trained mnist_layers ws) ''mnist_model/model.h5'' f1 = (Inl e, f2)"
  then show "fst (mnist_py out argv environ (start f)) = Inl e"
    and "map fst (trace (snd (mnist_py out argv environ (start f))))
        = [1, 2, 3, 5, 6, 9, 10, 13, 14, 17, 25, 32, 40, 43]"
    by (simp_all add: mnist_py_run start_def Let_def mnist_statements_def)
next
  assume "load_data out = Inr d \<and> fit out (cnn_fit_args out d) = Inr ws \<and>
    save_keras_model (trained cnn_layers ws) ''public/model'' f = (Inl e, f1)"
  then show "fst (train_mnist_model_py out argv environ (start f)) = Inl e"
    by (simp add: train_mnist_model_py_run start_def)
next
  assume "load_model ''mnist_model/model.h5'' f = Inl e"
  then show "fst (convert_model_py out argv environ (start f)) = Inl e"
    and "map fst (trace (snd (convert_model_py out argv environ (start f)))) = [1, 2, 3, 5, 8]"
    and "files (snd (convert_model_py out argv environ (start f))) = f"
    by (simp_all add: convert_model_py_run start_def Let_def convert_statements_def)
next
  assume "f (components ''mnist_model/model.h5'') = None"
  then have "load_model ''mnist_model/model.h5'' f = Inl OSError"
    by (simp add: load_model_def)
  then show "convert_model_py out argv environ (start f) =
        (Inl OSError,
         \<lparr>files = f,
          trace = [(1, Import ''tensorflowjs''), (2, Import ''tensorflow''),
                   (3, Import ''os''),
                   (5, Print [''TensorFlow.js version:'', tfjs_version out]),
                   (8, LoadModel ''mnist_model/model.h5'')],
          stdout = [[''TensorFlow.js version:'', tfjs_version out]],
          keras_cache = None\<rparr>)"
    by (simp add: convert_model_py_run start_def Let_def convert_statements_def)
next
  assume "load_model ''mnist_model/model.h5'' f = Inr m \<and>
    makedirs f (components ''public/model'') True = (Inl e, f1)"
  then show "fst (convert_model_py out argv environ (start f)) = Inl e"
    and "map fst (trace (snd (convert_model_py out argv environ (start f)))) = [1, 2, 3, 5, 8, 11]"
    by (simp_all add: convert_model_py_run start_def Let_def convert_statements_def)
next
  assume "load_model ''mnist_model/model.h5'' f = Inr m \<and>
    makedirs f (components ''public/model'') True = (Inr (), f1) \<and>
    save_keras_model m ''public/model'' f1 = (Inl e, f2)"
  then show "fst (convert_model_py out argv environ (start f)) = Inl e"
    and "map fst (trace (snd (convert_model_py out argv environ (start f))))
        = [1, 2, 3, 5, 8, 11, 14]"
    by (simp_all add: convert_model_py_run start_def Let_def convert_statements_def)
qed

theorem failures_propagate_witness:
  "load_data offline = Inl (LibraryError ''dataset unavailable'') \<and>
   fst (mnist_py offline [] Map.empty (start Map.empty))
     = Inl (LibraryError ''dataset unavailable'') \<and>
   fst (train_mnist_model_py offline [] Map.empty (start Map.empty))
     = Inl (LibraryError ''dataset unavailable'') \<and>
   fst (convert_model_py example_outside [] Map.empty (start Map.empty))
     = Inl OSError \<and>
   files (snd (convert_model_py example_outside [] Map.empty (start Map.empty)))
     = Map.empty \<and>
   model_save (trained mnist_layers (\<lambda>k. (\<lambda>idx. 1, \<lambda>j. 0))) ''mnist_model/model.h5''
     blocked_files = (Inl IsADirectoryError, blocked_files) \<and>
   fst (mnist_py example_outside [] Map.empty (start blocked_files))
     = Inl IsADirectoryError"
proof -
  have off: "load_data offline = Inl (LibraryError ''dataset unavailable'')"
    by (simp add: offline_def)
  have missing: "Map.empty (components ''mnist_model/model.h5'') = (None :: node option)"
    by simp
  have blocked: "load_data example_outside = Inr example_dataset \<and>
      fit example_outside (mnist_fit_args example_outside example_dataset)
        = Inr (\<lambda>k. (\<lambda>idx. 1, \<lambda>j. 0)) \<and>
      makedirs blocked_files (components ''mnist_model'') True = (Inr (), blocked_files) \<and>
      model_save (trained mnist_layers (\<lambda>k. (\<lambda>idx. 1, \<lambda>j. 0))) ''mnist_model/model.h5''
        blocked_files = (Inl IsADirectoryError, blocked_files)"
    by (simp add: example_outside_def blocked_files_def components_mnist_model
        components_checkpoint makedirs_single model_save_def write_file_def isdir_def)
  from off missing blocked show ?thesis
    using failures_propagate
      [of offline "LibraryError ''dataset unavailable''" "[]" Map.empty Map.empty]
      failures_propagate [of example_outside _ "[]" Map.empty Map.empty]
      failures_propagate
        [of example_outside IsADirectoryError "[]" Map.empty blocked_files example_dataset
            "\<lambda>k. (\<lambda>idx. 1, \<lambda>j. 0)" blocked_files blocked_files]
    by simp
qed

subsection \<open>Predictions\<close>

lemma softmax_denominator_pos:
  "0 < (n :: nat) \<Longrightarrow> 0 < (\<Sum>k<n. exp (z k :: real))"
  by (rule sum_pos) auto

lemma softmax_sums_to_one:
  assumes "0 < (n :: nat)"
  shows "(\<Sum>j<n. exp (z j) / (\<Sum>k<n. exp (z k :: real))) = 1"
proof -
  have "(\<Sum>j<n. exp (z j) / (\<Sum>k<n. exp (z k))) = (\<Sum>j<n. exp (z j)) / (\<Sum>k<n. exp (z k))"
    by (rule sum_divide_distrib [symmetric])
  also have "\<dots> = 1"
    using softmax_denominator_pos [OF assms, of z] by simp
  finally show ?thesis .
qed

lemma softmax_component:
  assumes "j < (n :: nat)"
  shows "0 \<le> exp (z j) / (\<Sum>k<n. exp (z k :: real))"
    and "exp (z j) / (\<Sum>k<n. exp (z k :: real)) \<le> 1"
proof -
  from assms have pos: "0 < (\<Sum>k<n. exp (z k))"
    by (intro softmax_denominator_pos) simp
  then show "0 \<le> exp (z j) / (\<Sum>k<n. exp (z k))"
    by simp
  have "exp (z j) \<le> (\<Sum>k<n. exp (z k))"
    using assms by (intro member_le_sum) auto
  with pos show "exp (z j) / (\<Sum>k<n. exp (z k)) \<le> 1"
    by simp
qed

lemma outputs_vector:
  "shape t = [n] \<Longrightarrow> outputs t = map (\<lambda>i. elem t [i]) [0..<n]"
  by (simp add: outputs_def)

lemma outputs_rounded:
  "outputs (rounded rd t) = map rd (outputs t)"
  by (simp add: outputs_def rounded_def)

lemma shape_rounded [simp]: "shape (rounded rd t) = shape t"
  by (simp add: rounded_def)

declare apply_layer.simps [simp del]

lemma softmax_layer:
  assumes "shape t = [n]" and "0 < u"
  shows "\<exists>t'. apply_layer (Dense u Softmax) p t = Inr t' \<and> distribution u 0 (outputs t')"
proof -
  define z where "z j = snd p j + (\<Sum>i<n. elem t [i] * fst p [i, j])" for j
  define t' where "t' = activate Softmax
      \<lparr>shape = butlast (shape t) @ [u],
       elem = (\<lambda>idx. snd p (last idx) +
                 (\<Sum>i<last (shape t). elem t (butlast idx @ [i]) * fst p [i, last idx]))\<rparr>"
  have run: "apply_layer (Dense u Softmax) p t = Inr t'"
    using assms by (simp add: apply_layer.simps dense_def t'_def)
  have sh: "shape t' = [u]"
    using assms by (simp add: t'_def activate_def)
  have el: "elem t' [j] = exp (z j) / (\<Sum>k<u. exp (z k))" for j
    using assms by (simp add: t'_def activate_def z_def)
  have out: "outputs t' = map (\<lambda>j. exp (z j) / (\<Sum>k<u. exp (z k))) [0..<u]"
    by (simp add: outputs_vector [OF sh] el)
  have "sum_list (outputs t') = (\<Sum>j<u. exp (z j) / (\<Sum>k<u. exp (z k)))"
    by (simp add: out interv_sum_list_conv_sum_set_nat atLeast0LessThan)
  then have "sum_list (outputs t') = 1"
    using softmax_sums_to_one [OF assms(2), of z] by simp
  moreover have "list_all (\<lambda>p. 0 \<le> p \<and> p \<le> 1) (outputs t')"
    using softmax_component [of _ u z] by (simp add: out list_all_iff)
  moreover have "length (outputs t') = u"
    by (simp add: out)
  ultimately show ?thesis
    using run by (auto simp: distribution_def)
qed

text \<open>Rounding a row moves its sum by at most the rounding error of each entry.\<close>

lemma rounded_sum:
  assumes "\<forall>x. 0 \<le> x \<and> x \<le> 1 \<longrightarrow> 0 \<le> rd x \<and> rd x \<le> 1 \<and> \<bar>rd x - x\<bar> \<le> eps"
    and "list_all (\<lambda>p. 0 \<le> p \<and> p \<le> 1) y"
  shows "\<bar>sum_list (map rd y) - sum_list y\<bar> \<le> real (length y) * eps"
  using assms(2)
proof (induction y)
  case Nil
  then show ?case by simp
next
  case (Cons a y)
  then have a: "\<bar>rd a - a\<bar> \<le> eps"
    and rest: "\<bar>sum_list (map rd y) - sum_list y\<bar> \<le> real (length y) * eps"
    using assms(1) by auto
  have "\<bar>sum_list (map rd (a # y)) - sum_list (a # y)\<bar>
          = \<bar>(rd a - a) + (sum_list (map rd y) - sum_list y)\<bar>"
    by (simp add: algebra_simps)
  also have "\<dots> \<le> \<bar>rd a - a\<bar> + \<bar>sum_list (map rd y) - sum_list y\<bar>"
    by (rule abs_triangle_ineq)
  also have "\<dots> \<le> eps + real (length y) * eps"
    using a rest by simp
  finally show ?case
    by (simp add: algebra_simps)
qed

lemma rounded_distribution:
  assumes "\<forall>x. 0 \<le> x \<and> x \<le> 1 \<longrightarrow> 0 \<le> rd x \<and> rd x \<le> 1 \<and> \<bar>rd x - x\<bar> \<le> eps"
    and "distribution n 0 y"
  shows "distribution n (real n * eps) (map rd y)"
proof -
  from assms(2) have len: "length y = n" and unit: "list_all (\<lambda>p. 0 \<le> p \<and> p \<le> 1) y"
    and total: "sum_list y = 1"
    by (simp_all add: distribution_def)
  have "list_all (\<lambda>p. 0 \<le> p \<and> p \<le> 1) (map rd y)"
    using unit assms(1) by (simp add: list_all_iff)
  moreover have "\<bar>sum_list (map rd y) - 1\<bar> \<le> real n * eps"
    using rounded_sum [OF assms(1) unit] len total by simp
  ultimately show ?thesis
    using len by (simp add: distribution_def)
qed

lemma run_layer_Inr:
  "apply_layer l p t = Inr t' \<Longrightarrow> run_layer rd l p t = Inr (rounded rd t')"
  by (simp add: run_layer_def)

lemma run_softmax_layer:
  assumes "\<forall>x. 0 \<le> x \<and> x \<le> 1 \<longrightarrow> 0 \<le> rd x \<and> rd x \<le> 1 \<and> \<bar>rd x - x\<bar> \<le> eps"
    and "shape t = [n]" and "0 < u"
  shows "\<exists>t'. run_layer rd (Dense u Softmax) p t = Inr t' \<and>
           distribution u (real u * eps) (outputs t')"
proof -
  from softmax_layer [OF assms(2,3), of p] obtain t0
    where "apply_layer (Dense u Softmax) p t = Inr t0" and "distribution u 0 (outputs t0)"
    by blast
  then show ?thesis
    using rounded_distribution [OF assms(1), of u "outputs t0"]
    by (auto simp: run_layer_Inr outputs_rounded)
qed

lemma run_relu_layer:
  assumes "shape t = [n]"
  shows "\<exists>t'. run_layer rd (Dense u Relu) p t = Inr t' \<and> shape t' = [u]"
  using assms by (simp add: run_layer_def apply_layer.simps dense_def activate_def)

lemma run_flatten_layer:
  "\<exists>t'. run_layer rd (Flatten None) p t = Inr t' \<and> shape t' = [prod_list (shape t)]"
  by (simp add: run_layer_def apply_layer.simps reshape_def)

lemma run_flatten_input_layer:
  assumes "shape t = s"
  shows "\<exists>t'. run_layer rd (Flatten (Some s)) p t = Inr t' \<and> shape t' = [prod_list s]"
  using assms by (auto simp: run_layer_def apply_layer.simps reshape_def)

lemma run_conv_layer:
  assumes "shape t = [h, w, c]"
  shows "\<exists>t'. run_layer rd (Conv2D n (3, 3) Relu Same) p t = Inr t' \<and> shape t' = [h, w, n]"
  using assms by (simp add: run_layer_def apply_layer.simps conv2d_def activate_def Let_def)

lemma run_pooling_layer:
  assumes "shape t = [h, w, c]" and "2 \<le> h" and "2 \<le> w"
  shows "\<exists>t'. run_layer rd (MaxPooling2D (2, 2)) p t = Inr t' \<and>
           shape t' = [h div 2, w div 2, c]"
  using assms by (simp add: run_layer_def apply_layer.simps max_pooling2d_def Let_def)

lemma run_reshape_layer:
  assumes "prod_list s = prod_list (shape t)"
  shows "\<exists>t'. run_layer rd (Reshape s) p t = Inr t' \<and> shape t' = s"
  using assms by (simp add: run_layer_def apply_layer.simps reshape_def)

lemma run_input_layer:
  assumes "shape t = s"
  shows "\<exists>t'. run_layer rd (Input s) p t = Inr t' \<and> shape t' = s"
  using assms by (simp add: run_layer_def apply_layer.simps)

lemma run_dropout_layer:
  "\<exists>t'. run_layer rd (Dropout r) p t = Inr t' \<and> shape t' = shape t"
  by (simp add: run_layer_def apply_layer.simps)

lemma forward_mnist_layers:
  assumes "\<forall>x. 0 \<le> x \<and> x \<le> 1 \<longrightarrow> 0 \<le> rd x \<and> rd x \<le> 1 \<and> \<bar>rd x - x\<bar> \<le> eps"
    and "shape x = [28, 28]"
  shows "\<exists>t. forward rd mnist_layers ws 0 x = Inr t \<and> distribution 10 (10 * eps) (outputs t)"
proof -
  obtain t1 where t1: "run_layer rd (Flatten (Some [28, 28])) (ws 0) x = Inr t1"
    and s1: "shape t1 = [prod_list [28, 28]]"
    using run_flatten_input_layer [OF assms(2), of rd "ws 0"] by blast
  obtain t2 where t2: "run_layer rd (Dense 128 Relu) (ws (Suc 0)) t1 = Inr t2"
    and s2: "shape t2 = [128]"
    using run_relu_layer [OF s1, of rd 128 "ws (Suc 0)"] by blast
  obtain t3 where t3: "run_layer rd (Dropout (2 / 10)) (ws (Suc (Suc 0))) t2 = Inr t3"
    and s3: "shape t3 = [128]"
    using run_dropout_layer [of rd "2 / 10" "ws (Suc (Suc 0))" t2] s2 by auto
  have "0 < (10 :: nat)"
    by simp
  from run_softmax_layer [OF assms(1) s3 this, of "ws (Suc (Suc (Suc 0)))"]
  obtain t4 where t4: "run_layer rd (Dense 10 Softmax) (ws (Suc (Suc (Suc 0)))) t3 = Inr t4"
    and d4: "distribution 10 (10 * eps) (outputs t4)"
    by auto
  have "forward rd mnist_layers ws 0 x = Inr t4"
    using t1 t2 t3 t4 by (simp add: mnist_layers_def)
  with d4 show ?thesis
    by simp
qed

lemma forward_cnn_layers:
  assumes "\<forall>x. 0 \<le> x \<and> x \<le> 1 \<longrightarrow> 0 \<le> rd x \<and> rd x \<le> 1 \<and> \<bar>rd x - x\<bar> \<le> eps"
    and "shape x = [28, 28]"
  shows "\<exists>t. forward rd cnn_layers ws 0 x = Inr t \<and> distribution 10 (10 * eps) (outputs t)"
proof -
  obtain t0 where t0: "run_layer rd (Input [28, 28]) (ws 0) x = Inr t0"
    and s0: "shape t0 = [28, 28]"
    using run_input_layer [OF assms(2), of rd "ws 0"] by blast
  have "prod_list [28, 28, 1] = prod_list (shape t0)"
    using s0 by simp
  from run_reshape_layer [OF this, of rd "ws (Suc 0)"]
  obtain t1 where t1: "run_layer rd (Reshape [28, 28, 1]) (ws (Suc 0)) t0 = Inr t1"
    and s1: "shape t1 = [28, 28, 1]"
    by blast
  obtain t2 where t2: "run_layer rd (Conv2D 32 (3, 3) Relu Same) (ws (Suc (Suc 0))) t1 = Inr t2"
    and s2: "shape t2 = [28, 28, 32]"
    using run_conv_layer [OF s1, of rd 32 "ws (Suc (Suc 0))"] by blast
  have "(2 :: nat) \<le> 28"
    by simp
  from run_pooling_layer [OF s2 this this, of rd "ws (Suc (Suc (Suc 0)))"]
  obtain t3 where t3: "run_layer rd (MaxPooling2D (2, 2)) (ws (Suc (Suc (Suc 0)))) t2 = Inr t3"
    and s3: "shape t3 = [14, 14, 32]"
    by auto
  obtain t4 where t4: "run_layer rd (Conv2D 64 (3, 3) Relu Same)
                         (ws (Suc (Suc (Suc (Suc 0))))) t3 = Inr t4"
    and s4: "shape t4 = [14, 14, 64]"
    using run_conv_layer [OF s3, of rd 64 "ws (Suc (Suc (Suc (Suc 0))))"] by blast
  have "(2 :: nat) \<le> 14"
    by simp
  from run_pooling_layer [OF s4 this this, of rd "ws (Suc (Suc (Suc (Suc (Suc 0)))))"]
  obtain t5 where t5: "run_layer rd (MaxPooling2D (2, 2))
                         (ws (Suc (Suc (Suc (Suc (Suc 0)))))) t4 = Inr t5"
    and s5: "shape t5 = [7, 7, 64]"
    by auto
  from run_flatten_layer [of rd "ws (Suc (Suc (Suc (Suc (Suc (Suc 0))))))" t5]
  obtain t6 where t6: "run_layer rd (Flatten None)
                         (ws (Suc (Suc (Suc (Suc (Suc (Suc 0))))))) t5 = Inr t6"
    and s6: "shape t6 = [prod_list (shape t5)]"
    by blast
  obtain t7 where t7: "run_layer rd (Dense 128 Relu)
                         (ws (Suc (Suc (Suc (Suc (Suc (Suc (Suc 0)))))))) t6 = Inr t7"
    and s7: "shape t7 = [128]"
    using run_relu_layer [OF s6, of rd 128 "ws (Suc (Suc (Suc (Suc (Suc (Suc (Suc 0)))))))"]
    by blast
  obtain t8 where t8: "run_layer rd (Dropout (2 / 10))
              (ws (Suc (Suc (Suc (Suc (Suc (Suc (Suc (Suc 0))))))))) t7 = Inr t8"
    and s8: "shape t8 = [128]"
    using run_dropout_layer
      [of rd "2 / 10" "ws (Suc (Suc (Suc (Suc (Suc (Suc (Suc (Suc 0))))))))" t7] s7
    by auto
  have "0 < (10 :: nat)"
    by simp
  from run_softmax_layer [OF assms(1) s8 this,
      of "ws (Suc (Suc (Suc (Suc (Suc (Suc (Suc (Suc (Suc 0)))))))))"]
  obtain t9 where t9: "run_layer rd (Dense 10 Softmax)
                         (ws (Suc (Suc (Suc (Suc (Suc (Suc (Suc (Suc (Suc 0)))))))))) t8
                         = Inr t9"
    and d9: "distribution 10 (10 * eps) (outputs t9)"
    by auto
  have "forward rd cnn_layers ws 0 x = Inr t9"
    using t0 t1 t2 t3 t4 t5 t6 t7 t8 t9 by (simp add: cnn_layers_def)
  with d9 show ?thesis
    by simp
qed

lemma predict_rows_distributions:
  assumes "\<forall>x. 0 \<le> x \<and> x \<le> 1 \<longrightarrow> 0 \<le> rd x \<and> rd x \<le> 1 \<and> \<bar>rd x - x\<bar> \<le> eps"
    and "layers m = mnist_layers \<or> layers m = cnn_layers"
    and "\<forall>x\<in>set batch. shape x = [28, 28]"
  shows "\<exists>ys. predict_rows rd m batch = Inr ys \<and> length ys = length batch \<and>
           (\<forall>y\<in>set ys. distribution 10 (10 * eps) y)"
  using assms(3)
proof (induction batch)
  case Nil
  then show ?case by simp
next
  case (Cons x xs)
  then obtain ys where ys: "predict_rows rd m xs = Inr ys" "length ys = length xs"
      "\<forall>y\<in>set ys. distribution 10 (10 * eps) y"
    by auto
  from Cons.prems have "shape x = [28, 28]"
    by simp
  then obtain t where "forward rd (layers m) (weights m) 0 x = Inr t"
      "distribution 10 (10 * eps) (outputs t)"
    using assms(2) forward_mnist_layers [OF assms(1), of x "weights m"]
      forward_cnn_layers [OF assms(1), of x "weights m"]
    by auto
  with ys show ?case
    by simp
qed

lemma mnist_py_checkpoint:
  assumes "mnist_py out argv environ (start f) = (Inr (), w')"
  shows "\<exists>ws. load_model ''mnist_model/model.h5'' (files w')
                 = Inr (trained mnist_layers ws)"
proof -
  from assms obtain ws f1 where
    "model_save (trained mnist_layers ws) ''mnist_model/model.h5'' f1 = (Inr (), files w')"
    by (auto simp: mnist_py_run start_def Let_def split: sum.splits prod.splits)
  then have "files w' (components ''mnist_model/model.h5'')
               = Some (File (H5 (trained mnist_layers ws)))"
    by (simp add: model_save_Inr)
  then show ?thesis
    by (auto simp: load_model_Inr)
qed

text \<open>
  C3, as stated, fails on one batch: the batch with no image is a batch of
  correctly-shaped images, and on it the model reloaded from the checkpoint of a
  completed run of \<^verbatim>\<open>mnist.py\<close> returns nothing: \<^verbatim>\<open>predict\<close> raises \<^verbatim>\<open>ValueError\<close>.
\<close>

theorem empty_batch_counterexample:
  "fst (mnist_py example_outside [] Map.empty (start Map.empty)) = Inr () \<and>
   load_model ''mnist_model/model.h5''
     (files (snd (mnist_py example_outside [] Map.empty (start Map.empty))))
     = Inr (trained mnist_layers (\<lambda>k. (\<lambda>idx. 1, \<lambda>j. 0))) \<and>
   predict (\<lambda>x. x) (trained mnist_layers (\<lambda>k. (\<lambda>idx. 1, \<lambda>j. 0))) [] = Inl ValueError"
  by (simp add: example_mnist_world load_model_def components_checkpoint predict_def)

lemma round24_bounds:
  assumes "0 \<le> x \<and> x \<le> 1"
  shows "0 \<le> round24 x \<and> round24 x \<le> 1 \<and> \<bar>round24 x - x\<bar> \<le> 1 / 2 ^ 25"
proof -
  define y where "y = x * 16777216"
  from assms have "0 \<le> y" and "y \<le> 16777216"
    by (simp_all add: y_def)
  then have "round (0 :: real) \<le> round y" and "round y \<le> round (16777216 :: real)"
    by (simp_all only: round_mono)
  then have lo: "0 \<le> round y" and hi: "round y \<le> 16777216"
    by simp_all
  have r: "round24 x = real_of_int (round y) / 16777216"
    by (simp add: round24_def y_def)
  from lo have "0 \<le> round24 x"
    by (simp add: r)
  moreover from hi have "real_of_int (round y) \<le> 16777216"
    by linarith
  then have "round24 x \<le> 1"
    by (simp add: r)
  moreover have "\<bar>real_of_int (round y) - y\<bar> \<le> 1 / 2"
    by (rule of_int_round_abs_le)
  then have "\<bar>round24 x - x\<bar> \<le> 1 / 2 ^ 25"
    by (simp add: r y_def field_simps abs_le_iff)
  ultimately show ?thesis
    by simp
qed

lemma sum_below_10:
  "(\<Sum>k<(10 :: nat). g k) = g 0 + g 1 + g 2 + g 3 + g 4 + g 5 + g 6 + g 7 + g 8 + (g 9 :: real)"
  by (simp add: numeral_eq_Suc)

lemma upt_10: "[0..<10] = [0, 1, 2, 3, 4, 5, 6, 7, 8, 9 :: nat]"
  by code_simp

lemma skewed_prediction:
  "predict (\<lambda>x. x) (trained mnist_layers skewed_weights) [grey_image]
     = Inr [[2 / 11, 1 / 11, 1 / 11, 1 / 11, 1 / 11, 1 / 11, 1 / 11, 1 / 11, 1 / 11, 1 / 11]]"
  by (simp add: predict_def trained_def mnist_layers_def grey_image_def skewed_weights_def
      run_layer_def rounded_def apply_layer.simps reshape_def dense_def activate_def
      outputs_def upt_10 sum_below_10)

text \<open>
  C3, amended. For every batch of at least one image, each of shape 28 by 28, and
  every rounding that moves a number between 0 and 1 by at most \<open>eps\<close>, the model
  reloaded from the checkpoint of a completed run of \<^verbatim>\<open>mnist.py\<close> returns one row for
  each image; each row has 10 components, every component lies between 0 and 1, and
  the components sum to 1 within \<open>10 * eps\<close>, the rounding of the 10 components. The
  same holds of any model with the layers of either training script, whatever its
  weights: the last layer is \<^verbatim>\<open>Dense(10)\<close> with softmax.
\<close>

theorem reloaded_model_predicts_distributions:
  assumes "batch \<noteq> []"
    and "\<forall>x\<in>set batch. shape x = [28, 28]"
    and "rounding rd eps"
  shows "(mnist_py out argv environ (start f) = (Inr (), w') \<longrightarrow>
            (\<exists>m ys. load_model ''mnist_model/model.h5'' (files w') = Inr m \<and>
               predict rd m batch = Inr ys \<and> length ys = length batch \<and>
               (\<forall>y\<in>set ys. length y = 10 \<and> (\<forall>p\<in>set y. 0 \<le> p \<and> p \<le> 1) \<and>
                  \<bar>sum_list y - 1\<bar> \<le> 10 * eps))) \<and>
         (layers m = mnist_layers \<or> layers m = cnn_layers \<longrightarrow>
            (\<exists>ys. predict rd m batch = Inr ys \<and> length ys = length batch \<and>
               (\<forall>y\<in>set ys. length y = 10 \<and> (\<forall>p\<in>set y. 0 \<le> p \<and> p \<le> 1) \<and>
                  \<bar>sum_list y - 1\<bar> \<le> 10 * eps)))"
proof (intro conjI impI)
  from assms(3)
  have rd: "\<forall>x. 0 \<le> x \<and> x \<le> 1 \<longrightarrow> 0 \<le> rd x \<and> rd x \<le> 1 \<and> \<bar>rd x - x\<bar> \<le> eps"
    by (simp add: rounding_def)
  {
  assume "mnist_py out argv environ (start f) = (Inr (), w')"
  from mnist_py_checkpoint [OF this] obtain ws
    where m: "load_model ''mnist_model/model.h5'' (files w') = Inr (trained mnist_layers ws)"
    by blast
  have "layers (trained mnist_layers ws) = mnist_layers \<or>
        layers (trained mnist_layers ws) = cnn_layers"
    by (simp add: trained_def)
  from predict_rows_distributions [OF rd this assms(2)]
  obtain ys where "predict_rows rd (trained mnist_layers ws) batch = Inr ys"
      "length ys = length batch" "\<forall>y\<in>set ys. distribution 10 (10 * eps) y"
    by blast
  with m assms(1) show "\<exists>m ys. load_model ''mnist_model/model.h5'' (files w') = Inr m \<and>
               predict rd m batch = Inr ys \<and> length ys = length batch \<and>
               (\<forall>y\<in>set ys. length y = 10 \<and> (\<forall>p\<in>set y. 0 \<le> p \<and> p \<le> 1) \<and>
                  \<bar>sum_list y - 1\<bar> \<le> 10 * eps)"
    by (auto simp: predict_def distribution_def list_all_iff)
  }
  {
  assume "layers m = mnist_layers \<or> layers m = cnn_layers"
  from predict_rows_distributions [OF rd this assms(2)]
  obtain ys where "predict_rows rd m batch = Inr ys"
      "length ys = length batch" "\<forall>y\<in>set ys. distribution 10 (10 * eps) y"
    by blast
  with assms(1) show "\<exists>ys. predict rd m batch = Inr ys \<and> length ys = length batch \<and>
               (\<forall>y\<in>set ys. length y = 10 \<and> (\<forall>p\<in>set y. 0 \<le> p \<and> p \<le> 1) \<and>
                  \<bar>sum_list y - 1\<bar> \<le> 10 * eps)"
    by (auto simp: predict_def distribution_def list_all_iff)
  }
qed

theorem reloaded_model_predicts_distributions_witness:
  "[grey_image] \<noteq> [] \<and> shape grey_image = [28, 28] \<and>
   rounding round24 (1 / 2 ^ 25) \<and>
   fst (mnist_py example_outside [] Map.empty (start Map.empty)) = Inr () \<and>
   (\<exists>m ys. load_model ''mnist_model/model.h5''
              (files (snd (mnist_py example_outside [] Map.empty (start Map.empty)))) = Inr m \<and>
      predict round24 m [grey_image] = Inr ys \<and> length ys = 1 \<and>
      (\<forall>y\<in>set ys. length y = 10 \<and> (\<forall>p\<in>set y. 0 \<le> p \<and> p \<le> 1) \<and>
         \<bar>sum_list y - 1\<bar> \<le> 10 * (1 / 2 ^ 25))) \<and>
   rounding (\<lambda>x. x) 0 \<and>
   layers (trained mnist_layers skewed_weights) = mnist_layers \<and>
   predict (\<lambda>x. x) (trained mnist_layers skewed_weights) [grey_image]
     = Inr [[2 / 11, 1 / 11, 1 / 11, 1 / 11, 1 / 11, 1 / 11, 1 / 11, 1 / 11, 1 / 11, 1 / 11]] \<and>
   length [2 / 11, 1 / 11, 1 / 11, 1 / 11, 1 / 11, 1 / 11, 1 / 11, 1 / 11, 1 / 11,
           1 / 11 :: real] = 10 \<and>
   \<bar>sum_list [2 / 11, 1 / 11, 1 / 11, 1 / 11, 1 / 11, 1 / 11, 1 / 11, 1 / 11, 1 / 11,
              1 / 11 :: real] - 1\<bar> \<le> 10 * 0"
proof -
  let ?run = "mnist_py example_outside [] Map.empty (start Map.empty)"
  let ?m = "trained mnist_layers skewed_weights"
  let ?row = "[2 / 11, 1 / 11, 1 / 11, 1 / 11, 1 / 11, 1 / 11, 1 / 11, 1 / 11, 1 / 11,
               1 / 11 :: real]"
  have nonempty: "[grey_image] \<noteq> []"
    by simp
  have shaped: "\<forall>x\<in>set [grey_image]. shape x = [28, 28]"
    by (simp add: grey_image_def)
  have floats: "rounding round24 (1 / 2 ^ 25)"
    unfolding rounding_def using round24_bounds by blast
  have exact: "rounding (\<lambda>x. x) 0"
    by (simp add: rounding_def)
  note inst = reloaded_model_predicts_distributions
    [OF nonempty shaped floats, of example_outside "[]" Map.empty Map.empty "snd ?run" ?m]
  note inst0 = reloaded_model_predicts_distributions
    [OF nonempty shaped exact, of example_outside "[]" Map.empty Map.empty "snd ?run" ?m]
  have completed: "?run = (Inr (), snd ?run)"
    using example_mnist_run by (simp add: prod_eq_iff)
  with inst have reloaded: "\<exists>m ys. load_model ''mnist_model/model.h5'' (files (snd ?run)) = Inr m \<and>
      predict round24 m [grey_image] = Inr ys \<and> length ys = 1 \<and>
      (\<forall>y\<in>set ys. length y = 10 \<and> (\<forall>p\<in>set y. 0 \<le> p \<and> p \<le> 1) \<and>
         \<bar>sum_list y - 1\<bar> \<le> 10 * (1 / 2 ^ 25))"
    by auto
  have layered: "layers ?m = mnist_layers"
    by (simp add: trained_def)
  with inst0 obtain ys where ys: "predict (\<lambda>x. x) ?m [grey_image] = Inr ys"
    and dist: "\<forall>y\<in>set ys. length y = 10 \<and> (\<forall>p\<in>set y. 0 \<le> p \<and> p \<le> 1) \<and>
                 \<bar>sum_list y - 1\<bar> \<le> 10 * 0"
    by blast
  from ys have "ys = [?row]"
    unfolding skewed_prediction by simp
  then have "?row \<in> set ys"
    by simp
  with dist have both: "length ?row = 10 \<and> (\<forall>p\<in>set ?row. 0 \<le> p \<and> p \<le> 1) \<and>
      \<bar>sum_list ?row - 1\<bar> \<le> 10 * 0"
    by (rule bspec)
  from both have len: "length ?row = 10"
    by (rule conjunct1)
  from both have total: "\<bar>sum_list ?row - 1\<bar> \<le> 10 * 0"
    by (rule conjunct2 [OF conjunct2])
  show ?thesis
  proof (intro conjI)
    show "[grey_image] \<noteq> []"
      by (rule nonempty)
    show "shape grey_image = [28, 28]"
      by (simp add: grey_image_def)
    show "rounding round24 (1 / 2 ^ 25)"
      by (rule floats)
    show "fst ?run = Inr ()"
      by (rule example_mnist_run)
    show "\<exists>m ys. load_model ''mnist_model/model.h5'' (files (snd ?run)) = Inr m \<and>
      predict round24 m [grey_image] = Inr ys \<and> length ys = 1 \<and>
      (\<forall>y\<in>set ys. length y = 10 \<and> (\<forall>p\<in>set y. 0 \<le> p \<and> p \<le> 1) \<and>
         \<bar>sum_list y - 1\<bar> \<le> 10 * (1 / 2 ^ 25))"
      by (rule reloaded)
    show "rounding (\<lambda>x. x) 0"
      by (rule exact)
    show "layers ?m = mnist_layers"
      by (rule layered)
    show "predict (\<lambda>x. x) ?m [grey_image] = Inr [?row]"
      by (rule skewed_prediction)
    show "length ?row = 10"
      by (rule len)
    show "\<bar>sum_list ?row - 1\<bar> \<le> 10 * 0"
      by (rule total)
  qed
qed

end
